theory Spec2Isabelle
  imports Complex_Main
begin

section \<open>Conventions of the embedding\<close>

text \<open>
  The TypeScript sources compute on \<^verbatim>\<open>number\<close>. The embedding reads every number as a
  \<^typ>\<open>real\<close>: comparisons, \<^verbatim>\<open>Math.min\<close>, \<^verbatim>\<open>Math.max\<close>, \<^verbatim>\<open>Math.abs\<close> and the
  arithmetic are exact, and the rounding error of IEEE doubles, infinities and NaN are
  outside the model. \<^verbatim>\<open>Math.round x\<close> is \<open>\<lfloor>x + 1/2\<rfloor>\<close>, which is \<^const>\<open>round\<close>;
  \<^verbatim>\<open>Math.floor\<close> is \<^const>\<open>floor\<close>.

  \<^verbatim>\<open>Math.random()\<close> reads an ambient generator. The embedding threads it as an infinite
  stream of draws: \<open>random r\<close> is the next draw and \<open>advance r\<close> the generator after it.
  The draws of the real generator lie in \<open>[0, 1)\<close>; theorems that need this say so.
  \<^verbatim>\<open>performance.now() / 1000\<close> is an argument of the operation that reads it.
\<close>

type_synonym rng = "nat \<Rightarrow> real"

definition random :: "rng \<Rightarrow> real" where
  "random r = r 0"

definition advance :: "rng \<Rightarrow> rng" where
  "advance r = (\<lambda>i. r (Suc i))"

section \<open>MarketScenario.ts\<close>

datatype BreakoutType = bullish | bearish | fake | none

datatype BreakoutSpeed = instant | gradual | accelerating

datatype UserAction = buy | sell | no_action

record FakeBreakoutConfig =
  fake_timeWindow :: "real \<times> real"
  fake_magnitude :: real
  reversalSpeed :: real

text \<open>
  Of \<^verbatim>\<open>AdvancedFeaturesConfig\<close> only \<^verbatim>\<open>fakeBreakouts\<close> is read by the classes embedded
  here; the other optional fields are configuration that no embedded function reads.
\<close>

record AdvancedFeaturesConfig =
  fakeBreakouts :: "FakeBreakoutConfig list option"

record BreakoutConfig =
  breakout_type :: BreakoutType
  timeWindow :: "real \<times> real"
  magnitude :: real
  speed :: BreakoutSpeed
  preWarning :: "real option"
  notification :: bool

record SpreadConfig =
  base :: real
  volatilityMultiplier :: real
  minSpread :: real
  maxSpread :: real

record MarketScenario =
  startPrice :: real
  duration :: real
  breakout :: BreakoutConfig
  spread :: SpreadConfig
  advanced :: "AdvancedFeaturesConfig option"
  expectedUserAction :: "UserAction option"
  recordReactionTime :: bool

text \<open>The factory presets, with no \<^verbatim>\<open>options\<close> override.\<close>

definition createBullishBreakout :: MarketScenario where
  "createBullishBreakout =
     \<lparr>startPrice = 100, duration = 60,
      breakout = \<lparr>breakout_type = bullish, timeWindow = (20, 40), magnitude = 1,
                  speed = gradual, preWarning = Some 5, notification = True\<rparr>,
      spread = \<lparr>base = 2 / 100, volatilityMultiplier = 3 / 2, minSpread = 1 / 100,
                maxSpread = 10 / 100\<rparr>,
      advanced = None, expectedUserAction = None, recordReactionTime = True\<rparr>"


definition createFakeBreakoutScenario :: MarketScenario where
  "createFakeBreakoutScenario =
     \<lparr>startPrice = 100, duration = 90,
      breakout = \<lparr>breakout_type = bullish, timeWindow = (50, 70), magnitude = 1,
                  speed = gradual, preWarning = Some 5, notification = True\<rparr>,
      spread = \<lparr>base = 2 / 100, volatilityMultiplier = 3 / 2, minSpread = 1 / 100,
                maxSpread = 10 / 100\<rparr>,
      advanced = Some \<lparr>fakeBreakouts = Some
        [\<lparr>fake_timeWindow = (15, 25), fake_magnitude = 1 / 2, reversalSpeed = 5\<rparr>]\<rparr>,
      expectedUserAction = None, recordReactionTime = True\<rparr>"

definition createRangingScenario :: MarketScenario where
  "createRangingScenario =
     \<lparr>startPrice = 100, duration = 60,
      breakout = \<lparr>breakout_type = none, timeWindow = (0, 0), magnitude = 0,
                  speed = gradual, preWarning = None, notification = False\<rparr>,
      spread = \<lparr>base = 2 / 100, volatilityMultiplier = 1, minSpread = 1 / 100,
                maxSpread = 5 / 100\<rparr>,
      advanced = None, expectedUserAction = None, recordReactionTime = False\<rparr>"

section \<open>RegimeScheduler.ts\<close>

type_synonym Regime = "string \<times> string"

datatype Sign = U | D | F

record RegimeSegment =
  startTime :: real
  endTime :: real
  regime :: Regime
  sign :: Sign
  targetPrice :: "real option"
  description :: string

record BreakoutEvent =
  ev_startTime :: real
  ev_endTime :: real
  ev_type :: BreakoutType
  ev_targetPrice :: real
  ev_speed :: BreakoutSpeed

text \<open>The entries of the local array \<^verbatim>\<open>allEvents\<close> of \<^verbatim>\<open>schedule\<close>.\<close>

datatype EventKind = fake_event | main_event

record SchedEvent =
  se_type :: EventKind
  se_startTime :: real
  se_endTime :: real
  se_targetPrice :: real
  se_reversalSpeed :: "real option"

record RegimeScheduler =
  timeline :: "RegimeSegment list"
  scenario :: "MarketScenario option"
  breakoutEvent :: "BreakoutEvent option"

definition newRegimeScheduler :: RegimeScheduler where
  "newRegimeScheduler = \<lparr>timeline = [], scenario = None, breakoutEvent = None\<rparr>"

text \<open>
  \<^verbatim>\<open>calculateBreakoutDuration\<close>: the \<^verbatim>\<open>default\<close> branch of the switch is unreachable for
  a value of type \<^verbatim>\<open>BreakoutSpeed\<close>.
\<close>

fun calculateBreakoutDuration :: "BreakoutSpeed \<Rightarrow> real \<Rightarrow> real" where
  "calculateBreakoutDuration instant magnitudePercent = 2"
| "calculateBreakoutDuration gradual magnitudePercent =
     max 8 (min 30 (10 + magnitudePercent * 5))"
| "calculateBreakoutDuration accelerating magnitudePercent =
     max 10 (min 40 (15 + magnitudePercent * 8))"

text \<open>
  The first block of \<^verbatim>\<open>schedule\<close>: the primary breakout, when its type is not
  \<^verbatim>\<open>'none'\<close>. It consumes one draw.
\<close>

definition mainBreakout :: "MarketScenario \<Rightarrow> rng \<Rightarrow> BreakoutEvent" where
  "mainBreakout sc r =
     (let minTime = fst (timeWindow (breakout sc));
          maxTime = snd (timeWindow (breakout sc));
          breakoutStartTime = minTime + random r * (maxTime - minTime);
          breakoutDuration =
            calculateBreakoutDuration (speed (breakout sc)) \<bar>magnitude (breakout sc)\<bar>;
          breakoutEndTime = min (breakoutStartTime + breakoutDuration) (duration sc);
          tgt = startPrice sc * (1 + magnitude (breakout sc) / 100)
      in \<lparr>ev_startTime = breakoutStartTime, ev_endTime = breakoutEndTime,
          ev_type = breakout_type (breakout sc), ev_targetPrice = tgt,
          ev_speed = speed (breakout sc)\<rparr>)"

text \<open>The loop over \<^verbatim>\<open>fakeBreakouts\<close>: two events and one draw for each entry.\<close>

fun addFakeBreakouts ::
  "real \<Rightarrow> FakeBreakoutConfig list \<Rightarrow> rng \<Rightarrow> SchedEvent list \<times> rng" where
  "addFakeBreakouts sp [] r = ([], r)"
| "addFakeBreakouts sp (fk # fks) r =
     (let minTime = fst (fake_timeWindow fk);
          maxTime = snd (fake_timeWindow fk);
          fakeStartTime = minTime + random r * (maxTime - minTime);
          fakeDuration = calculateBreakoutDuration gradual \<bar>fake_magnitude fk\<bar>;
          fakeEndTime = fakeStartTime + fakeDuration;
          fakeReversalTime = fakeEndTime + reversalSpeed fk;
          rest = addFakeBreakouts sp fks (advance r)
      in (\<lparr>se_type = fake_event, se_startTime = fakeStartTime, se_endTime = fakeEndTime,
           se_targetPrice = sp * (1 + fake_magnitude fk / 100),
           se_reversalSpeed = Some (reversalSpeed fk)\<rparr>
          # \<lparr>se_type = fake_event, se_startTime = fakeEndTime,
              se_endTime = fakeReversalTime, se_targetPrice = sp,
              se_reversalSpeed = None\<rparr>
          # fst rest, snd rest))"

definition configuredFakes :: "MarketScenario \<Rightarrow> FakeBreakoutConfig list" where
  "configuredFakes sc =
     (case advanced sc of
        None \<Rightarrow> []
      | Some a \<Rightarrow> (case fakeBreakouts a of None \<Rightarrow> [] | Some fs \<Rightarrow> fs))"

text \<open>
  \<^verbatim>\<open>allEvents\<close> after \<^verbatim>\<open>allEvents.sort((a, b) => a.startTime - b.startTime)\<close>. The primary
  breakout draws first, the fake breakouts after it; the fake events are pushed first.
  \<^verbatim>\<open>Array.prototype.sort\<close> is stable, as \<^const>\<open>sort_key\<close> is.
\<close>

definition allEvents :: "MarketScenario \<Rightarrow> rng \<Rightarrow> SchedEvent list" where
  "allEvents sc r =
     (if breakout_type (breakout sc) \<noteq> none then
        (let ev = mainBreakout sc r
         in sort_key se_startTime
              (fst (addFakeBreakouts (startPrice sc) (configuredFakes sc) (advance r))
               @ [\<lparr>se_type = main_event, se_startTime = ev_startTime ev,
                    se_endTime = ev_endTime ev, se_targetPrice = ev_targetPrice ev,
                    se_reversalSpeed = None\<rparr>]))
      else sort_key se_startTime
             (fst (addFakeBreakouts (startPrice sc) (configuredFakes sc) r)))"

definition eventSegment :: "real \<Rightarrow> SchedEvent \<Rightarrow> RegimeSegment" where
  "eventSegment sp e =
     (let direction = (if se_targetPrice e > sp then U else D);
          isMain = (se_type e = main_event)
      in \<lparr>startTime = se_startTime e, endTime = se_endTime e,
          regime = (''N'', ''B''), sign = direction,
          targetPrice = Some (se_targetPrice e),
          description =
            (if isMain
             then (if direction = U then ''Main bullish breakout''
                   else ''Main bearish breakout'')
             else ''Fake breakout'')\<rparr>)"

definition rangingSegment :: "real \<Rightarrow> real \<Rightarrow> string \<Rightarrow> RegimeSegment" where
  "rangingSegment s e d =
     \<lparr>startTime = s, endTime = e, regime = (''N'', ''O''), sign = F,
      targetPrice = None, description = d\<rparr>"

text \<open>
  The loop \<^verbatim>\<open>for (let i = 0; i < allEvents.length; i++)\<close>: the accumulator is
  \<^verbatim>\<open>this.timeline\<close>, the second argument \<^verbatim>\<open>currentTime\<close>.
\<close>

fun buildTimeline ::
  "real \<Rightarrow> RegimeSegment list \<Rightarrow> real \<Rightarrow> SchedEvent list \<Rightarrow> RegimeSegment list \<times> real"
  where
  "buildTimeline sp tline currentTime [] = (tline, currentTime)"
| "buildTimeline sp tline currentTime (e # es) =
     buildTimeline sp
       (tline @ (if currentTime < se_startTime e
                 then [rangingSegment currentTime (se_startTime e) ''Ranging period'']
                 else [])
              @ [eventSegment sp e])
       (se_endTime e) es"

text \<open>
  \<^verbatim>\<open>schedule\<close>. The field \<^verbatim>\<open>breakoutEvent\<close> is assigned only when the breakout type is
  not \<^verbatim>\<open>'none'\<close>; otherwise it keeps the value it had.
\<close>

definition schedule ::
  "MarketScenario \<Rightarrow> RegimeScheduler \<Rightarrow> rng \<Rightarrow> RegimeScheduler \<times> rng" where
  "schedule sc st r =
     (let hasMain = (breakout_type (breakout sc) \<noteq> none);
          r1 = (if hasMain then advance r else r);
          r2 = snd (addFakeBreakouts (startPrice sc) (configuredFakes sc) r1);
          built = buildTimeline (startPrice sc) [] 0 (allEvents sc r);
          final = (if snd built < duration sc
                   then [rangingSegment (snd built) (duration sc) ''Post-breakout ranging'']
                   else [])
      in (\<lparr>timeline = fst built @ final, scenario = Some sc,
           breakoutEvent = (if hasMain then Some (mainBreakout sc r) else breakoutEvent st)\<rparr>,
          r2))"

record CurrentRegime =
  cr_regime :: Regime
  cr_sign :: Sign
  cr_targetPrice :: "real option"

text \<open>The \<^verbatim>\<open>for (const segment of this.timeline)\<close> loop of \<^verbatim>\<open>getCurrentRegime\<close>.\<close>

fun findSegment :: "RegimeSegment list \<Rightarrow> real \<Rightarrow> RegimeSegment option" where
  "findSegment [] elapsedTime = None"
| "findSegment (segment # segs) elapsedTime =
     (if elapsedTime \<ge> startTime segment \<and> elapsedTime < endTime segment
      then Some segment
      else findSegment segs elapsedTime)"

definition segmentRegime :: "RegimeSegment \<Rightarrow> CurrentRegime" where
  "segmentRegime s =
     \<lparr>cr_regime = regime s, cr_sign = sign s, cr_targetPrice = targetPrice s\<rparr>"

definition getCurrentRegime :: "RegimeScheduler \<Rightarrow> real \<Rightarrow> CurrentRegime" where
  "getCurrentRegime st elapsedTime =
     (if timeline st = [] then
        \<lparr>cr_regime = (''N'', ''O''), cr_sign = F, cr_targetPrice = None\<rparr>
      else
        (case findSegment (timeline st) elapsedTime of
           Some segment \<Rightarrow> segmentRegime segment
         | None \<Rightarrow> segmentRegime (last (timeline st))))"

definition getBreakoutEvent :: "RegimeScheduler \<Rightarrow> BreakoutEvent option" where
  "getBreakoutEvent st = breakoutEvent st"

definition isInBreakout :: "RegimeScheduler \<Rightarrow> real \<Rightarrow> bool" where
  "isInBreakout st elapsedTime = (snd (cr_regime (getCurrentRegime st elapsedTime)) = ''B'')"

definition getTimeUntilBreakout :: "RegimeScheduler \<Rightarrow> real \<Rightarrow> real option" where
  "getTimeUntilBreakout st elapsedTime =
     (case breakoutEvent st of
        None \<Rightarrow> None
      | Some ev \<Rightarrow>
          (let timeUntil = ev_startTime ev - elapsedTime
           in if timeUntil > 0 then Some timeUntil else None))"

definition resetScheduler :: "RegimeScheduler \<Rightarrow> RegimeScheduler" where
  "resetScheduler st = \<lparr>timeline = [], scenario = None, breakoutEvent = None\<rparr>"

subsection \<open>Properties of a timeline\<close>

text \<open>
  A timeline is contiguous when its first segment starts at 0 and every other segment
  starts where the one before it ends; \<open>chained t segs\<close> says so for a timeline that has to
  start at \<open>t\<close>. Segments are the half-open intervals \<open>[startTime, endTime)\<close>.
\<close>

fun chained :: "real \<Rightarrow> RegimeSegment list \<Rightarrow> bool" where
  "chained t [] = True"
| "chained t (s # ss) = (startTime s = t \<and> chained (endTime s) ss)"

definition contiguous :: "RegimeSegment list \<Rightarrow> bool" where
  "contiguous segs = chained 0 segs"

definition seg_span :: "RegimeSegment \<Rightarrow> real set" where
  "seg_span s = {startTime s ..< endTime s}"

definition non_overlapping :: "RegimeSegment list \<Rightarrow> bool" where
  "non_overlapping segs =
     (\<forall>i < length segs. \<forall>j < length segs.
        i \<noteq> j \<longrightarrow> seg_span (segs ! i) \<inter> seg_span (segs ! j) = {})"

definition covers :: "RegimeSegment list \<Rightarrow> real \<Rightarrow> bool" where
  "covers segs d = ((\<Union>s \<in> set segs. seg_span s) = {0 ..< d})"

text \<open>
  The events of a scenario fit when, in their sorted order, the first starts at 0 or
  later, each ends no earlier than it starts, each starts no earlier than the one before
  it ends, and all end by the scenario's duration.
\<close>

fun events_fit :: "real \<Rightarrow> real \<Rightarrow> SchedEvent list \<Rightarrow> bool" where
  "events_fit cur d [] = True"
| "events_fit cur d (e # es) =
     (cur \<le> se_startTime e \<and> se_startTime e \<le> se_endTime e \<and> se_endTime e \<le> d
      \<and> events_fit (se_endTime e) d es)"

text \<open>The time at which a chained list of segments ends.\<close>

fun chain_end :: "real \<Rightarrow> RegimeSegment list \<Rightarrow> real" where
  "chain_end t [] = t"
| "chain_end t (s # ss) = chain_end (endTime s) ss"

subsection \<open>Concrete inputs\<close>

text \<open>A generator whose every draw is \<open>u\<close>.\<close>

definition constDraws :: "real \<Rightarrow> rng" where
  "constDraws u = (\<lambda>i. u)"

text \<open>
  The fake-then-real preset with the primary window moved from \<open>[50, 70]\<close> to
  \<open>[30, 50]\<close>: with every draw 0 the fake breakout runs over \<open>[15, 27.5)\<close>, its reversal
  over \<open>[27.5, 32.5)\<close> and the primary breakout over \<open>[30, 45)\<close>.
\<close>

definition overlappingScenario :: MarketScenario where
  "overlappingScenario =
     createFakeBreakoutScenario
       \<lparr>breakout := (breakout createFakeBreakoutScenario)\<lparr>timeWindow := (30, 50)\<rparr>\<rparr>"


section \<open>BreakoutNotifier.ts\<close>

datatype BreakoutEventType = warning | start | progress | completion

text \<open>The interface \<^verbatim>\<open>BreakoutEvent\<close> of BreakoutNotifier.ts, the payload of an emission.\<close>

record NotifierEvent =
  ne_type :: BreakoutEventType
  ne_breakoutType :: BreakoutType
  ne_timeToBreakout :: "real option"
  ne_currentPrice :: "real option"
  ne_targetPrice :: "real option"
  ne_magnitude :: "real option"
  ne_expectedDuration :: "real option"
  ne_progress :: "real option"
  ne_timestamp :: real

text \<open>
  Listeners are callbacks; the embedding names each by a number and records what
  \<^verbatim>\<open>emit\<close> hands to whom, in order, as a list of deliveries. What a callback does with
  the event (log, throw, call the notifier again) is outside the model.
\<close>

type_synonym callback = nat

type_synonym deliveries = "(callback \<times> NotifierEvent) list"

record BreakoutNotifier =
  listeners :: "BreakoutEventType \<rightharpoonup> callback list"
  warningTimeout :: "real option"
  lastWarningTime :: real
  lastProgressTime :: real
  breakoutInProgress :: bool
  breakoutStartPrice :: real

definition newBreakoutNotifier :: BreakoutNotifier where
  "newBreakoutNotifier =
     \<lparr>listeners = Map.empty, warningTimeout = None, lastWarningTime = 0,
      lastProgressTime = 0, breakoutInProgress = False, breakoutStartPrice = 0\<rparr>"

definition on :: "BreakoutEventType \<Rightarrow> callback \<Rightarrow> BreakoutNotifier \<Rightarrow> BreakoutNotifier" where
  "on eventType cb st =
     st\<lparr>listeners := (listeners st)
          (eventType \<mapsto> (case listeners st eventType of None \<Rightarrow> [] | Some cbs \<Rightarrow> cbs) @ [cb])\<rparr>"

definition onAny :: "callback \<Rightarrow> BreakoutNotifier \<Rightarrow> BreakoutNotifier" where
  "onAny cb st = fold (\<lambda>t. on t cb) [warning, start, progress, completion] st"

text \<open>\<^verbatim>\<open>indexOf\<close> finds the first occurrence and \<^verbatim>\<open>splice\<close> removes it.\<close>

definition off :: "BreakoutEventType \<Rightarrow> callback \<Rightarrow> BreakoutNotifier \<Rightarrow> BreakoutNotifier" where
  "off eventType cb st =
     (case listeners st eventType of
        None \<Rightarrow> st
      | Some cbs \<Rightarrow> st\<lparr>listeners := (listeners st)(eventType \<mapsto> remove1 cb cbs)\<rparr>)"

definition emit :: "NotifierEvent \<Rightarrow> BreakoutNotifier \<Rightarrow> deliveries" where
  "emit event st =
     (case listeners st (ne_type event) of
        None \<Rightarrow> []
      | Some cbs \<Rightarrow> map (\<lambda>cb. (cb, event)) cbs)"

text \<open>In the four operations below \<open>now\<close> is the reading of \<^verbatim>\<open>performance.now() / 1000\<close>.\<close>

definition scheduleWarning ::
  "real \<Rightarrow> real \<Rightarrow> real \<Rightarrow> BreakoutType \<Rightarrow> real \<Rightarrow> real \<Rightarrow> BreakoutNotifier
   \<Rightarrow> BreakoutNotifier \<times> deliveries" where
  "scheduleWarning breakoutTime currentTime warningLead breakoutType mag now st =
     (let timeToBreakout = breakoutTime - currentTime
      in if timeToBreakout > 0 \<and> timeToBreakout \<le> warningLead then
           (if now - lastWarningTime st < 1 then (st, [])
            else
              (let st' = st\<lparr>lastWarningTime := now\<rparr>
               in (st', emit \<lparr>ne_type = warning, ne_breakoutType = breakoutType,
                              ne_timeToBreakout = Some timeToBreakout,
                              ne_currentPrice = None, ne_targetPrice = None,
                              ne_magnitude = Some mag, ne_expectedDuration = None,
                              ne_progress = None, ne_timestamp = now\<rparr> st')))
         else (st, []))"

definition notifyBreakoutStart ::
  "BreakoutType \<Rightarrow> real \<Rightarrow> real \<Rightarrow> real \<Rightarrow> real \<Rightarrow> real \<Rightarrow> BreakoutNotifier
   \<Rightarrow> BreakoutNotifier \<times> deliveries" where
  "notifyBreakoutStart breakoutType currentPrice tgt mag expectedDuration now st =
     (if breakoutInProgress st then (st, [])
      else
        (let st' = st\<lparr>breakoutInProgress := True, breakoutStartPrice := currentPrice\<rparr>
         in (st', emit \<lparr>ne_type = start, ne_breakoutType = breakoutType,
                        ne_timeToBreakout = None, ne_currentPrice = Some currentPrice,
                        ne_targetPrice = Some tgt, ne_magnitude = Some mag,
                        ne_expectedDuration = Some expectedDuration, ne_progress = None,
                        ne_timestamp = now\<rparr> st')))"

definition notifyProgress ::
  "BreakoutType \<Rightarrow> real \<Rightarrow> real \<Rightarrow> real \<Rightarrow> real \<Rightarrow> BreakoutNotifier
   \<Rightarrow> BreakoutNotifier \<times> deliveries" where
  "notifyProgress breakoutType currentPrice tgt throttleSeconds now st =
     (if \<not> breakoutInProgress st then (st, [])
      else if now - lastProgressTime st < throttleSeconds then (st, [])
      else
        (let st' = st\<lparr>lastProgressTime := now\<rparr>;
             totalMove = tgt - breakoutStartPrice st';
             currentMove = currentPrice - breakoutStartPrice st';
             prog = (if totalMove \<noteq> 0 then max 0 (min 1 (currentMove / totalMove)) else 0)
         in (st', emit \<lparr>ne_type = progress, ne_breakoutType = breakoutType,
                        ne_timeToBreakout = None, ne_currentPrice = Some currentPrice,
                        ne_targetPrice = Some tgt, ne_magnitude = None,
                        ne_expectedDuration = None, ne_progress = Some prog,
                        ne_timestamp = now\<rparr> st')))"

definition notifyBreakoutCompletion ::
  "BreakoutType \<Rightarrow> real \<Rightarrow> real \<Rightarrow> real \<Rightarrow> real \<Rightarrow> BreakoutNotifier
   \<Rightarrow> BreakoutNotifier \<times> deliveries" where
  "notifyBreakoutCompletion breakoutType currentPrice tgt mag now st =
     (if \<not> breakoutInProgress st then (st, [])
      else
        (let st' = st\<lparr>breakoutInProgress := False\<rparr>
         in (st', emit \<lparr>ne_type = completion, ne_breakoutType = breakoutType,
                        ne_timeToBreakout = None, ne_currentPrice = Some currentPrice,
                        ne_targetPrice = Some tgt, ne_magnitude = Some mag,
                        ne_expectedDuration = None, ne_progress = Some 1,
                        ne_timestamp = now\<rparr> st')))"

definition isBreakoutInProgress :: "BreakoutNotifier \<Rightarrow> bool" where
  "isBreakoutInProgress st = breakoutInProgress st"

definition resetNotifier :: "BreakoutNotifier \<Rightarrow> BreakoutNotifier" where
  "resetNotifier st =
     st\<lparr>warningTimeout := None, lastWarningTime := 0, lastProgressTime := 0,
        breakoutInProgress := False, breakoutStartPrice := 0\<rparr>"

definition clearListeners :: "BreakoutNotifier \<Rightarrow> BreakoutNotifier" where
  "clearListeners st = st\<lparr>listeners := Map.empty\<rparr>"

subsection \<open>Sequences of calls on a notifier\<close>

datatype NotifierCall =
    On BreakoutEventType callback
  | OnAny callback
  | Off BreakoutEventType callback
  | ScheduleWarning real real real BreakoutType real real
  | NotifyBreakoutStart BreakoutType real real real real real
  | NotifyProgress BreakoutType real real real real
  | NotifyBreakoutCompletion BreakoutType real real real real
  | Reset
  | ClearListeners

fun call :: "NotifierCall \<Rightarrow> BreakoutNotifier \<Rightarrow> BreakoutNotifier \<times> deliveries" where
  "call (On t cb) st = (on t cb st, [])"
| "call (OnAny cb) st = (onAny cb st, [])"
| "call (Off t cb) st = (off t cb st, [])"
| "call (ScheduleWarning bt ct wl ty mg now) st = scheduleWarning bt ct wl ty mg now st"
| "call (NotifyBreakoutStart ty cp tp mg ed now) st = notifyBreakoutStart ty cp tp mg ed now st"
| "call (NotifyProgress ty cp tp th now) st = notifyProgress ty cp tp th now st"
| "call (NotifyBreakoutCompletion ty cp tp mg now) st =
     notifyBreakoutCompletion ty cp tp mg now st"
| "call Reset st = (resetNotifier st, [])"
| "call ClearListeners st = (clearListeners st, [])"

text \<open>A sequence of calls, from left to right, with everything delivered on the way.\<close>

fun calls :: "NotifierCall list \<Rightarrow> BreakoutNotifier \<Rightarrow> BreakoutNotifier \<times> deliveries" where
  "calls [] st = (st, [])"
| "calls (c # cs) st =
     (let r1 = call c st; r2 = calls cs (fst r1) in (fst r2, snd r1 @ snd r2))"

fun isCompletion :: "NotifierCall \<Rightarrow> bool" where
  "isCompletion (NotifyBreakoutCompletion ty cp tp mg now) = True"
| "isCompletion c = False"

fun isReset :: "NotifierCall \<Rightarrow> bool" where
  "isReset Reset = True"
| "isReset c = False"

section \<open>QuoteModel.ts\<close>

text \<open>
  The key of an inner map of \<^verbatim>\<open>transition\<close> is a string \<^verbatim>\<open>"dp,sp,sz"\<close> of three
  integers (the format of the model data), which \<^verbatim>\<open>binKey.split(",").map(Number)\<close> turns
  back into the three integers. The embedding keeps the three integers as the key; keys
  of another shape, which would decode to NaN, are outside the model. An inner map is a
  list of entries in insertion order, the order in which \<^verbatim>\<open>bucket.entries()\<close> yields them.
\<close>

type_synonym binKey = "int \<times> int \<times> int"

record QuoteModel =
  transition :: "string \<rightharpoonup> (binKey \<times> real) list"
  ticksPerRegime :: "string \<rightharpoonup> real"
  secondsPerRegime :: "string \<rightharpoonup> real"


fun signTag :: "Sign \<Rightarrow> string" where
  "signTag U = ''U''"
| "signTag D = ''D''"
| "signTag F = ''F''"

text \<open>
  \<^verbatim>\<open>lambda\<close>: \<^verbatim>\<open>x || d\<close> is \<^verbatim>\<open>d\<close> when \<^verbatim>\<open>x\<close> is undefined or 0.
\<close>

definition lambda :: "QuoteModel \<Rightarrow> Regime \<Rightarrow> real" where
  "lambda m rg =
     (let key = fst rg @ '','' @ snd rg;
          secs = max 1 (case secondsPerRegime m key of
                          None \<Rightarrow> 1
                        | Some v \<Rightarrow> if v = 0 then 1 else v);
          ticks = (case ticksPerRegime m key of None \<Rightarrow> 0 | Some v \<Rightarrow> v)
      in ticks / secs)"

text \<open>
  The \<^verbatim>\<open>do ... while (p > L)\<close> loop of \<^verbatim>\<open>poissonSample\<close>, entered with \<open>k = 0\<close> and
  \<open>p = 1\<close>. Whether it ends depends on the draws, so the result is an option and
  \<open>None\<close> stands for a loop that never ends.
\<close>

partial_function (option) poissonLoop ::
  "real \<Rightarrow> nat \<Rightarrow> real \<Rightarrow> rng \<Rightarrow> (nat \<times> rng) option" where
  "poissonLoop L k p r =
     (if p * random r > L then poissonLoop L (k + 1) (p * random r) (advance r)
      else Some (k + 1 - 1, advance r))"

definition poissonSample :: "real \<Rightarrow> rng \<Rightarrow> (nat \<times> rng) option" where
  "poissonSample lam r = poissonLoop (exp (- lam)) 0 1 r"

definition sampleNbUpdates :: "QuoteModel \<Rightarrow> Regime \<Rightarrow> rng \<Rightarrow> (nat \<times> rng) option" where
  "sampleNbUpdates m rg r = poissonSample (lambda m rg) r"

record SampledTick =
  st_dp :: real
  st_spread :: real
  st_size :: real

definition fallbackTick :: SampledTick where
  "fallbackTick = \<lparr>st_dp = 0, st_spread = 1 / 100, st_size = 100\<rparr>"

text \<open>
  The loop \<^verbatim>\<open>for (const [binKey, weight] of entries)\<close> of \<^verbatim>\<open>sampleTick\<close>; \<open>None\<close> when
  it falls through.
\<close>

fun pickBucket :: "real \<Rightarrow> (binKey \<times> real) list \<Rightarrow> SampledTick option" where
  "pickBucket rnd [] = None"
| "pickBucket rnd ((bin, weight) # entries) =
     (if rnd - weight \<le> 0
      then Some \<lparr>st_dp = of_int (fst bin) * (5 / 1000),
                 st_spread = of_int (fst (snd bin)) * (1 / 100),
                 st_size = of_int (snd (snd bin)) * 100\<rparr>
      else pickBucket (rnd - weight) entries)"

text \<open>
  \<^verbatim>\<open>sampleTick\<close>. A \<^verbatim>\<open>Map\<close> is truthy, so \<^verbatim>\<open>!bucket\<close> holds exactly when the key is
  absent. The fallback paths at the top take no draw.
\<close>

definition sampleTick :: "QuoteModel \<Rightarrow> Regime \<Rightarrow> Sign \<Rightarrow> rng \<Rightarrow> SampledTick \<times> rng" where
  "sampleTick m rg sg r =
     (let key = fst rg @ '','' @ snd rg @ '','' @ signTag sg
      in case transition m key of
           None \<Rightarrow> (fallbackTick, r)
         | Some bucket \<Rightarrow>
             if length bucket = 0 then (fallbackTick, r)
             else
               (let totalWeight = foldl (\<lambda>sum e. sum + snd e) 0 bucket;
                    rnd = random r * totalWeight
                in (case pickBucket rnd bucket of
                      Some t \<Rightarrow> t
                    | None \<Rightarrow> fallbackTick,
                    advance r)))"

subsection \<open>QuoteGenerator\<close>

record QuoteGenerator =
  model :: QuoteModel
  bid :: real
  ask :: real

record Tick =
  time :: real
  priceBid :: real
  priceAsk :: real
  sizeBid :: real
  sizeAsk :: real

definition newQuoteGenerator :: "QuoteModel \<Rightarrow> real \<Rightarrow> real \<Rightarrow> QuoteGenerator" where
  "newQuoteGenerator m bid0 ask0 = \<lparr>model = m, bid = bid0, ask = ask0\<rparr>"

text \<open>\<^verbatim>\<open>Math.sign\<close> is \<^const>\<open>sgn\<close>.\<close>

definition biasTowardTarget :: "QuoteGenerator \<Rightarrow> real \<Rightarrow> real \<Rightarrow> real" where
  "biasTowardTarget g dp tgt =
     (let currentPrice = bid g;
          distanceToTarget = tgt - currentPrice
      in if \<bar>distanceToTarget\<bar> < currentPrice * (1 / 1000) then dp
         else
           (let desiredDirection = sgn distanceToTarget;
                urgency = min 1 (\<bar>distanceToTarget\<bar> / currentPrice * 20);
                biasFactor = (7 / 10) * urgency;
                stepSize = min (5 / 100) (\<bar>distanceToTarget\<bar> * (1 / 10));
                biasedDp = desiredDirection * stepSize;
                finalDp = biasFactor * biasedDp + (1 - biasFactor) * dp
            in finalDp))"

text \<open>
  One pass through the body of the loop of \<^verbatim>\<open>stepSecond\<close>, for the sampled tick \<open>t\<close>:
  the generator after it, the tick pushed and the sign for the next pass.
\<close>

definition subUpdate ::
  "real \<Rightarrow> real option \<Rightarrow> QuoteGenerator \<Rightarrow> SampledTick \<Rightarrow> QuoteGenerator \<times> Tick \<times> Sign" where
  "subUpdate ts tgt g t =
     (let dp = (case tgt of None \<Rightarrow> st_dp t | Some tp \<Rightarrow> biasTowardTarget g (st_dp t) tp);
          bid' = bid g + dp;
          ask' = max (bid' + st_spread t) (bid' + 1 / 100);
          g' = g\<lparr>bid := bid', ask := ask'\<rparr>
      in (g',
          \<lparr>time = ts,
           priceBid = of_int (round (bid' * 100)) / 100,
           priceAsk = of_int (round (ask' * 100)) / 100,
           sizeBid = of_int \<lfloor>st_size t / 2\<rfloor>,
           sizeAsk = of_int \<lfloor>st_size t / 2\<rfloor>\<rparr>,
          if dp > 0 then U else if dp < 0 then D else F))"

text \<open>
  The loop \<^verbatim>\<open>for (let i = 0; i < n; i++)\<close>, by the number of passes left; \<open>ticks\<close> is
  the array built so far and \<open>currentSign\<close> the sign of the pass.
\<close>

fun stepLoop ::
  "nat \<Rightarrow> real \<Rightarrow> Regime \<Rightarrow> real option \<Rightarrow> QuoteGenerator \<Rightarrow> Sign \<Rightarrow> Tick list \<Rightarrow> rng
   \<Rightarrow> Tick list \<times> QuoteGenerator \<times> rng" where
  "stepLoop 0 ts rg tgt g currentSign ticks r = (ticks, g, r)"
| "stepLoop (Suc n) ts rg tgt g currentSign ticks r =
     (let s = sampleTick (model g) rg currentSign r;
          u = subUpdate ts tgt g (fst s)
      in stepLoop n ts rg tgt (fst u) (snd (snd u)) (ticks @ [fst (snd u)]) (snd s))"

definition stepSecond ::
  "real \<Rightarrow> Regime \<Rightarrow> Sign \<Rightarrow> real option \<Rightarrow> QuoteGenerator \<Rightarrow> rng
   \<Rightarrow> (Tick list \<times> QuoteGenerator \<times> rng) option" where
  "stepSecond ts rg sg tgt g r =
     (case sampleNbUpdates (model g) rg r of
        None \<Rightarrow> None
      | Some (n, r') \<Rightarrow> Some (stepLoop n ts rg tgt g sg [] r'))"

definition getVolumeWeightedMid :: "QuoteGenerator \<Rightarrow> real \<Rightarrow> real \<Rightarrow> real" where
  "getVolumeWeightedMid g sizeB sizeA =
     (let totalSize = sizeB + sizeA
      in if totalSize = 0 then (bid g + ask g) / 2
         else (bid g * sizeA + ask g * sizeB) / totalSize)"

definition getBid :: "QuoteGenerator \<Rightarrow> real" where
  "getBid g = bid g"

definition getAsk :: "QuoteGenerator \<Rightarrow> real" where
  "getAsk g = ask g"

definition getMid :: "QuoteGenerator \<Rightarrow> real" where
  "getMid g = (bid g + ask g) / 2"

section \<open>PriceModel.ts\<close>

text \<open>
  A read of a field of \<^verbatim>\<open>undefined\<close> (an array read out of range followed by a field
  access) throws a TypeError.
\<close>

datatype error = TypeError

datatype Pivot = PL | PH

record BufferEntry =
  be_bid :: real
  be_ask :: real
  be_mid :: real

text \<open>
  The fields of \<^verbatim>\<open>PriceModel\<close>. \<^verbatim>\<open>windowSeconds\<close> counts seconds and indexes the buffer;
  it is a natural number. The exchange book generator and \<^verbatim>\<open>lastExchangeQuotes\<close> belong
  to a collaborator that is not part of these sources; no other field depends on them.
\<close>

record PriceModel =
  generator :: QuoteGenerator
  window :: nat
  buffer :: "BufferEntry list"
  maxBufferSize :: nat
  pm_scenario :: MarketScenario
  scheduler :: RegimeScheduler
  notifier :: BreakoutNotifier
  pm_startTime :: real
  elapsedTime :: real
  hasNotifiedBreakoutStart :: bool
  pivot :: "Pivot option"
  pivotBid :: real
  pivotAsk :: real
  bestBid :: real
  bestAsk :: real

text \<open>
  The constructor; \<open>now\<close> is the reading of \<^verbatim>\<open>performance.now() / 1000\<close>. The loop that
  pushes the same entry \<^verbatim>\<open>maxBufferSize\<close> times is \<^const>\<open>replicate\<close>.
\<close>

definition newPriceModel ::
  "QuoteModel \<Rightarrow> MarketScenario option \<Rightarrow> nat \<Rightarrow> real \<Rightarrow> rng \<Rightarrow> PriceModel \<times> rng" where
  "newPriceModel quoteModel scOpt windowSeconds now r =
     (let sc = (case scOpt of None \<Rightarrow> createRangingScenario | Some s \<Rightarrow> s);
          baseBid = startPrice sc;
          baseAsk = baseBid + base (spread sc);
          sch = schedule sc newRegimeScheduler r
      in (\<lparr>generator = newQuoteGenerator quoteModel baseBid baseAsk,
           window = windowSeconds,
           buffer = replicate (2 * windowSeconds + 1)
                      \<lparr>be_bid = baseBid, be_ask = baseAsk, be_mid = (baseBid + baseAsk) / 2\<rparr>,
           maxBufferSize = 2 * windowSeconds + 1,
           pm_scenario = sc,
           scheduler = fst sch,
           notifier = newBreakoutNotifier,
           pm_startTime = now,
           elapsedTime = 0,
           hasNotifiedBreakoutStart = False,
           pivot = None,
           pivotBid = baseBid, pivotAsk = baseAsk,
           bestBid = baseBid, bestAsk = baseAsk\<rparr>,
          snd sch))"

text \<open>
  \<^verbatim>\<open>handleBreakoutNotifications\<close>; \<open>clk\<close> is the reading of the clock that the notifier
  takes during the step. \<^verbatim>\<open>preWarning\<close> counts as set when it is defined and not 0.
\<close>

definition handleBreakoutNotifications :: "real \<Rightarrow> PriceModel \<Rightarrow> PriceModel \<times> deliveries" where
  "handleBreakoutNotifications clk pm =
     (case getBreakoutEvent (scheduler pm) of
        None \<Rightarrow> (pm, [])
      | Some ev \<Rightarrow>
          if breakout_type (breakout (pm_scenario pm)) = none then (pm, [])
          else
            (let bc = breakout (pm_scenario pm);
                 tgt = ev_targetPrice ev;
                 ty = ev_type ev;
                 currentPrice = bestBid pm;
                 n1 = (case preWarning bc of
                         Some pw \<Rightarrow>
                           if notification bc \<and> pw \<noteq> 0
                           then scheduleWarning (ev_startTime ev) (elapsedTime pm) pw ty
                                  (magnitude bc) clk (notifier pm)
                           else (notifier pm, [])
                       | None \<Rightarrow> (notifier pm, []));
                 inBreakout = isInBreakout (scheduler pm) (elapsedTime pm);
                 n2 = (if inBreakout \<and> \<not> hasNotifiedBreakoutStart pm
                       then notifyBreakoutStart ty currentPrice tgt (magnitude bc)
                              (ev_endTime ev - ev_startTime ev) clk (fst n1)
                       else (fst n1, []));
                 started = (if inBreakout \<and> \<not> hasNotifiedBreakoutStart pm then True
                            else hasNotifiedBreakoutStart pm);
                 n3 = (if inBreakout \<and> started
                       then notifyProgress ty currentPrice tgt 1 clk (fst n2)
                       else (fst n2, []));
                 n4 = (if inBreakout \<and> started \<and> \<bar>tgt - currentPrice\<bar> < \<bar>tgt\<bar> * (2 / 1000)
                       then notifyBreakoutCompletion ty currentPrice tgt (magnitude bc) clk
                              (fst n3)
                       else (fst n3, []));
                 n5 = (if \<not> inBreakout \<and> started \<and> \<bar>tgt - currentPrice\<bar> < \<bar>tgt\<bar> * (5 / 1000)
                       then notifyBreakoutCompletion ty currentPrice tgt (magnitude bc) clk
                              (fst n4)
                       else (fst n4, []));
                 started' = (if \<not> inBreakout \<and> started then False else started)
             in (pm\<lparr>notifier := fst n5, hasNotifiedBreakoutStart := started'\<rparr>,
                 snd n1 @ snd n2 @ snd n3 @ snd n4 @ snd n5)))"

text \<open>
  The three blocks of \<^verbatim>\<open>update\<close> after the call of \<^verbatim>\<open>stepSecond\<close>. First the entry of
  this step: from the last tick when there is one, else the last entry of the buffer.
\<close>

definition stepEntry ::
  "Tick list \<Rightarrow> PriceModel \<Rightarrow> error + BufferEntry \<times> PriceModel" where
  "stepEntry ticks pm =
     (if length ticks > 0 then
        (let lst = last ticks;
             mid = getVolumeWeightedMid (generator pm) (sizeBid lst) (sizeAsk lst)
         in Inr (\<lparr>be_bid = priceBid lst, be_ask = priceAsk lst, be_mid = mid\<rparr>,
                 pm\<lparr>bestBid := priceBid lst, bestAsk := priceAsk lst\<rparr>))
      else if buffer pm = [] then Inl TypeError
      else Inr (last (buffer pm), pm))"

text \<open>Then the buffer: append at the end, remove from the beginning.\<close>

definition pushEntry :: "BufferEntry \<Rightarrow> PriceModel \<Rightarrow> PriceModel" where
  "pushEntry e pm =
     (let pushed = buffer pm @ [e]
      in pm\<lparr>buffer := (if length pushed > maxBufferSize pm then tl pushed else pushed)\<rparr>)"

text \<open>\<^verbatim>\<open>Math.max(...mids)\<close> and \<^verbatim>\<open>Math.min(...mids)\<close> of a non-empty array.\<close>

fun maxOf :: "real list \<Rightarrow> real" where
  "maxOf (x # xs) = fold max xs x"

fun minOf :: "real list \<Rightarrow> real" where
  "minOf (x # xs) = fold min xs x"

text \<open>Then the pivot at the centre of the buffer, when the buffer is full.\<close>

definition detectPivot :: "PriceModel \<Rightarrow> error + PriceModel" where
  "detectPivot pm =
     (if length (buffer pm) = maxBufferSize pm then
        (if window pm \<ge> length (buffer pm) then Inl TypeError
         else
           (let centre = buffer pm ! window pm;
                mids = map be_mid (buffer pm);
                maxMid = maxOf mids;
                minMid = minOf mids
            in Inr (pm\<lparr>pivot := (if be_mid centre = maxMid then Some PH
                                   else if be_mid centre = minMid then Some PL
                                   else None),
                        pivotBid := be_bid centre,
                        pivotAsk := be_ask centre\<rparr>)))
      else Inr pm)"

text \<open>
  \<^verbatim>\<open>update\<close>; \<open>nowDt\<close> is \<^verbatim>\<open>new Date()\<close>, \<open>now\<close> the reading of the clock at the top and
  \<open>clk\<close> the reading that the notifier takes. The result is \<open>None\<close> when the sampling
  loop never ends, \<open>Some (Inl TypeError)\<close> when the step throws.
\<close>

definition update ::
  "real \<Rightarrow> real \<Rightarrow> real \<Rightarrow> PriceModel \<Rightarrow> rng
   \<Rightarrow> (error + PriceModel \<times> deliveries \<times> rng) option" where
  "update nowDt now clk pm r =
     (let pm1 = pm\<lparr>elapsedTime := now - pm_startTime pm\<rparr>;
          cur = getCurrentRegime (scheduler pm1) (elapsedTime pm1);
          h = handleBreakoutNotifications clk pm1
      in case stepSecond nowDt (cr_regime cur) (cr_sign cur) (cr_targetPrice cur)
                (generator (fst h)) r of
           None \<Rightarrow> None
         | Some (ticks, g', r') \<Rightarrow>
             (case stepEntry ticks ((fst h)\<lparr>generator := g'\<rparr>) of
                Inl e \<Rightarrow> Some (Inl e)
              | Inr (entry, pm2) \<Rightarrow>
                  (case detectPivot (pushEntry entry pm2) of
                     Inl e \<Rightarrow> Some (Inl e)
                   | Inr pm3 \<Rightarrow> Some (Inr (pm3, snd h, r')))))"

text \<open>\<^verbatim>\<open>resetWithScenario\<close>; it keeps the quote model, the window and the buffer size.\<close>

definition resetWithScenario ::
  "MarketScenario \<Rightarrow> real \<Rightarrow> PriceModel \<Rightarrow> rng \<Rightarrow> PriceModel \<times> rng" where
  "resetWithScenario sc now pm r =
     (let sch = schedule sc (resetScheduler (scheduler pm)) r;
          baseBid = startPrice sc;
          baseAsk = baseBid + base (spread sc)
      in (pm\<lparr>pm_scenario := sc,
              scheduler := fst sch,
              notifier := resetNotifier (notifier pm),
              generator := newQuoteGenerator (model (generator pm)) baseBid baseAsk,
              buffer := replicate (maxBufferSize pm)
                          \<lparr>be_bid = baseBid, be_ask = baseAsk,
                           be_mid = (baseBid + baseAsk) / 2\<rparr>,
              bestBid := baseBid, bestAsk := baseAsk,
              pivot := None,
              pivotBid := baseBid, pivotAsk := baseAsk,
              pm_startTime := now,
              elapsedTime := 0,
              hasNotifiedBreakoutStart := False\<rparr>,
          snd sch))"

subsection \<open>Sequences of calls on a price model\<close>

datatype PriceModelCall = Update real real real | ResetWithScenario MarketScenario real

text \<open>
  A sequence of calls, from left to right; it stops at the first call that does not
  return.
\<close>

fun pmCalls ::
  "PriceModelCall list \<Rightarrow> PriceModel \<Rightarrow> rng \<Rightarrow> (error + PriceModel \<times> rng) option" where
  "pmCalls [] pm r = Some (Inr (pm, r))"
| "pmCalls (Update nowDt now clk # cs) pm r =
     (case update nowDt now clk pm r of
        None \<Rightarrow> None
      | Some (Inl e) \<Rightarrow> Some (Inl e)
      | Some (Inr (pm', ds, r')) \<Rightarrow> pmCalls cs pm' r')"
| "pmCalls (ResetWithScenario sc now # cs) pm r =
     pmCalls cs (fst (resetWithScenario sc now pm r)) (snd (resetWithScenario sc now pm r))"


text \<open>The buffer is full, and it is flat at \<open>c\<close> when every entry has the mid price \<open>c\<close>.\<close>

definition buffer_full :: "PriceModel \<Rightarrow> bool" where
  "buffer_full pm =
     (length (buffer pm) = 2 * window pm + 1 \<and> maxBufferSize pm = 2 * window pm + 1)"


text \<open>
  The pivot that the comparison in \<^verbatim>\<open>update\<close> assigns for the buffer of \<open>pm\<close>: high when
  the mid price at the centre equals the maximum, else low when it equals the minimum.
\<close>

definition pivotOf :: "PriceModel \<Rightarrow> Pivot option" where
  "pivotOf pm =
     (if be_mid (buffer pm ! window pm) = maxOf (map be_mid (buffer pm)) then Some PH
      else if be_mid (buffer pm ! window pm) = minOf (map be_mid (buffer pm)) then Some PL
      else None)"

text \<open>The call of \<^verbatim>\<open>stepSecond\<close> that \<open>update\<close> makes in the state \<open>pm\<close>.\<close>

definition updateTicks ::
  "real \<Rightarrow> real \<Rightarrow> PriceModel \<Rightarrow> rng \<Rightarrow> (Tick list \<times> QuoteGenerator \<times> rng) option" where
  "updateTicks nowDt now pm r =
     (let cur = getCurrentRegime (scheduler pm) (now - pm_startTime pm)
      in stepSecond nowDt (cr_regime cur) (cr_sign cur) (cr_targetPrice cur) (generator pm) r)"

subsection \<open>Concrete inputs\<close>

text \<open>
  Model data with one tick per second in the ranging regime and a single bucket for a
  flat sign: price delta 2 (one cent), spread 3 (three cents), size 5 (500).
\<close>

definition sampleQuoteModel :: QuoteModel where
  "sampleQuoteModel =
     \<lparr>transition = [''N,O,F'' \<mapsto> [((2, 3, 5), 1)]],
      ticksPerRegime = [''N,O'' \<mapsto> 1],
      secondsPerRegime = [''N,O'' \<mapsto> 1]\<rparr>"

text \<open>A generator whose first draw is 0.9 and whose every later draw is 0.\<close>

definition sampleDraws :: rng where
  "sampleDraws = (\<lambda>i. if i = 0 then 9 / 10 else 0)"

definition sampleGenerator :: QuoteGenerator where
  "sampleGenerator = newQuoteGenerator sampleQuoteModel 100 (10002 / 100)"


definition tickModel :: PriceModel where
  "tickModel =
     fst (newPriceModel sampleQuoteModel (Some createRangingScenario) 5 0 (constDraws 0))"

section \<open>The timeline of a schedule\<close>

lemma buildTimeline_acc:
  "buildTimeline sp acc cur es =
     (acc @ fst (buildTimeline sp [] cur es), snd (buildTimeline sp [] cur es))"
proof (induction es arbitrary: acc cur)
  case Nil
  show ?case by simp
next
  case (Cons e es)
  let ?new = "(if cur < se_startTime e
               then [rangingSegment cur (se_startTime e) ''Ranging period''] else [])
              @ [eventSegment sp e]"
  have "buildTimeline sp acc cur (e # es) = buildTimeline sp (acc @ ?new) (se_endTime e) es"
    by simp
  also have "\<dots> = ((acc @ ?new) @ fst (buildTimeline sp [] (se_endTime e) es),
                    snd (buildTimeline sp [] (se_endTime e) es))"
    by (rule Cons.IH)
  finally have l: "buildTimeline sp acc cur (e # es) =
      (acc @ ?new @ fst (buildTimeline sp [] (se_endTime e) es),
       snd (buildTimeline sp [] (se_endTime e) es))" by simp
  have "buildTimeline sp [] cur (e # es) = buildTimeline sp ([] @ ?new) (se_endTime e) es"
    by simp
  also have "\<dots> = (([] @ ?new) @ fst (buildTimeline sp [] (se_endTime e) es),
                    snd (buildTimeline sp [] (se_endTime e) es))"
    by (rule Cons.IH)
  finally have r: "buildTimeline sp [] cur (e # es) =
      (?new @ fst (buildTimeline sp [] (se_endTime e) es),
       snd (buildTimeline sp [] (se_endTime e) es))" by simp
  show ?case unfolding l r by simp
qed

lemma chained_append:
  "chained a (xs @ ys) = (chained a xs \<and> chained (chain_end a xs) ys)"
  by (induction xs arbitrary: a) auto

lemma chain_end_append: "chain_end a (xs @ ys) = chain_end (chain_end a xs) ys"
  by (induction xs arbitrary: a) auto

lemma chained_span:
  "chained a segs \<Longrightarrow> \<forall>s \<in> set segs. startTime s \<le> endTime s \<Longrightarrow>
   a \<le> chain_end a segs \<and> (\<Union>s \<in> set segs. seg_span s) = {a ..< chain_end a segs}"
proof (induction segs arbitrary: a)
  case Nil
  show ?case by simp
next
  case (Cons s ss)
  from Cons.prems have st: "startTime s = a" and le: "a \<le> endTime s"
    and ch: "chained (endTime s) ss" and ord: "\<forall>x \<in> set ss. startTime x \<le> endTime x"
    by auto
  from Cons.IH [OF ch ord] have e: "endTime s \<le> chain_end (endTime s) ss"
    and u: "(\<Union>x \<in> set ss. seg_span x) = {endTime s ..< chain_end (endTime s) ss}"
    by auto
  have "seg_span s = {a ..< endTime s}" using st by (simp add: seg_span_def)
  with u le e show ?case by (auto simp: ivl_disj_un)
qed

lemma non_overlapping_Cons:
  "non_overlapping (s # ss) =
     ((\<forall>x \<in> set ss. seg_span s \<inter> seg_span x = {}) \<and> non_overlapping ss)"
proof
  assume h: "non_overlapping (s # ss)"
  have a: "\<forall>x \<in> set ss. seg_span s \<inter> seg_span x = {}"
  proof
    fix x assume "x \<in> set ss"
    then obtain i where i: "i < length ss" "ss ! i = x" by (auto simp: in_set_conv_nth)
    from h [unfolded non_overlapping_def, rule_format, of 0 "Suc i"] i
    show "seg_span s \<inter> seg_span x = {}" by simp
  qed
  have b: "non_overlapping ss"
    unfolding non_overlapping_def
  proof (intro allI impI)
    fix i j assume "i < length ss" "j < length ss" "i \<noteq> j"
    with h [unfolded non_overlapping_def, rule_format, of "Suc i" "Suc j"]
    show "seg_span (ss ! i) \<inter> seg_span (ss ! j) = {}" by simp
  qed
  from a b show "(\<forall>x \<in> set ss. seg_span s \<inter> seg_span x = {}) \<and> non_overlapping ss" ..
next
  assume h: "(\<forall>x \<in> set ss. seg_span s \<inter> seg_span x = {}) \<and> non_overlapping ss"
  show "non_overlapping (s # ss)"
    unfolding non_overlapping_def
  proof (intro allI impI)
    fix i j assume ij: "i < length (s # ss)" "j < length (s # ss)" "i \<noteq> j"
    show "seg_span ((s # ss) ! i) \<inter> seg_span ((s # ss) ! j) = {}"
    proof (cases i)
      case 0
      with ij obtain j' where "j = Suc j'" "j' < length ss" by (cases j) auto
      with 0 h show ?thesis by auto
    next
      case (Suc i')
      show ?thesis
      proof (cases j)
        case 0
        with Suc ij h have "seg_span s \<inter> seg_span (ss ! i') = {}" by auto
        with 0 Suc show ?thesis by auto
      next
        case (Suc j')
        with \<open>i = Suc i'\<close> ij h show ?thesis by (auto simp: non_overlapping_def)
      qed
    qed
  qed
qed

lemma chained_non_overlapping:
  "chained a segs \<Longrightarrow> \<forall>s \<in> set segs. startTime s \<le> endTime s \<Longrightarrow> non_overlapping segs"
proof (induction segs arbitrary: a)
  case Nil
  show ?case by (simp add: non_overlapping_def)
next
  case (Cons s ss)
  from Cons.prems have st: "startTime s = a"
    and ch: "chained (endTime s) ss" and ord: "\<forall>x \<in> set ss. startTime x \<le> endTime x"
    by auto
  from chained_span [OF ch ord]
  have u: "(\<Union>x \<in> set ss. seg_span x) = {endTime s ..< chain_end (endTime s) ss}" by simp
  have "\<forall>x \<in> set ss. seg_span s \<inter> seg_span x = {}"
  proof
    fix x assume x: "x \<in> set ss"
    then have "seg_span x \<subseteq> {endTime s ..< chain_end (endTime s) ss}" using u by blast
    then show "seg_span s \<inter> seg_span x = {}" by (auto simp: seg_span_def)
  qed
  with Cons.IH [OF ch ord] show ?case by (simp add: non_overlapping_Cons)
qed


lemma buildTimeline_Cons:
  "buildTimeline sp [] cur (e # es) =
     ((if cur < se_startTime e
       then [rangingSegment cur (se_startTime e) ''Ranging period''] else [])
      @ [eventSegment sp e] @ fst (buildTimeline sp [] (se_endTime e) es),
      snd (buildTimeline sp [] (se_endTime e) es))"
proof -
  let ?new = "(if cur < se_startTime e
               then [rangingSegment cur (se_startTime e) ''Ranging period''] else [])
              @ [eventSegment sp e]"
  have "buildTimeline sp [] cur (e # es) = buildTimeline sp ?new (se_endTime e) es"
    by simp
  also have "\<dots> = (?new @ fst (buildTimeline sp [] (se_endTime e) es),
                    snd (buildTimeline sp [] (se_endTime e) es))"
    by (rule buildTimeline_acc)
  finally show ?thesis by simp
qed

lemma eventSegment_times [simp]:
  "startTime (eventSegment sp e) = se_startTime e"
  "endTime (eventSegment sp e) = se_endTime e"
  by (simp_all add: eventSegment_def Let_def)

lemma rangingSegment_times [simp]:
  "startTime (rangingSegment a b d) = a"
  "endTime (rangingSegment a b d) = b"
  by (simp_all add: rangingSegment_def)

lemma buildTimeline_fit:
  "events_fit cur d es \<Longrightarrow>
   chained cur (fst (buildTimeline sp [] cur es)) \<and>
   (\<forall>s \<in> set (fst (buildTimeline sp [] cur es)). startTime s \<le> endTime s) \<and>
   chain_end cur (fst (buildTimeline sp [] cur es)) = snd (buildTimeline sp [] cur es) \<and>
   (if es = [] then snd (buildTimeline sp [] cur es) = cur
    else snd (buildTimeline sp [] cur es) \<le> d)"
proof (induction es arbitrary: cur)
  case Nil
  show ?case by simp
next
  case (Cons e es)
  from Cons.prems have c: "cur \<le> se_startTime e" and o: "se_startTime e \<le> se_endTime e"
    and d: "se_endTime e \<le> d" and f: "events_fit (se_endTime e) d es"
    by auto
  note ih = Cons.IH [OF f]
  show ?case
  proof (cases "cur < se_startTime e")
    case True
    with ih o d show ?thesis
      by (simp add: buildTimeline_Cons del: buildTimeline.simps split: if_splits)
  next
    case False
    with c have "se_startTime e = cur" by simp
    with ih o d show ?thesis
      by (simp add: buildTimeline_Cons del: buildTimeline.simps split: if_splits)
  qed
qed

lemma chained_ends:
  "chained a segs \<Longrightarrow> \<forall>s \<in> set segs. startTime s \<le> endTime s \<Longrightarrow>
   \<forall>s \<in> set segs. endTime s \<le> chain_end a segs"
proof (induction segs arbitrary: a)
  case Nil
  show ?case by simp
next
  case (Cons s ss)
  from Cons.prems have ch: "chained (endTime s) ss"
    and ord: "\<forall>x \<in> set ss. startTime x \<le> endTime x" by auto
  from chained_span [OF ch ord] Cons.IH [OF ch ord] show ?case by auto
qed

lemma schedule_timeline:
  "timeline (fst (schedule sc st r)) =
     fst (buildTimeline (startPrice sc) [] 0 (allEvents sc r))
     @ (if snd (buildTimeline (startPrice sc) [] 0 (allEvents sc r)) < duration sc
        then [rangingSegment (snd (buildTimeline (startPrice sc) [] 0 (allEvents sc r)))
                (duration sc) ''Post-breakout ranging'']
        else [])"
  by (simp add: schedule_def Let_def)

lemma schedule_chain:
  assumes "events_fit 0 (duration sc) (allEvents sc r)"
  shows "chained 0 (timeline (fst (schedule sc st r))) \<and>
         (\<forall>s \<in> set (timeline (fst (schedule sc st r))). startTime s \<le> endTime s) \<and>
         (if timeline (fst (schedule sc st r)) = [] then duration sc \<le> 0
          else chain_end 0 (timeline (fst (schedule sc st r))) = duration sc)"
proof -
  let ?b = "buildTimeline (startPrice sc) [] 0 (allEvents sc r)"
  from buildTimeline_fit [OF assms, of "startPrice sc"]
  have ch: "chained 0 (fst ?b)" and ord: "\<forall>s \<in> set (fst ?b). startTime s \<le> endTime s"
    and ce: "chain_end 0 (fst ?b) = snd ?b"
    and fin: "if allEvents sc r = [] then snd ?b = 0 else snd ?b \<le> duration sc"
    by auto
  show ?thesis
  proof (cases "snd ?b < duration sc")
    case True
    with ch ord ce show ?thesis
      by (simp add: schedule_timeline chained_append chain_end_append)
  next
    case False
    show ?thesis
    proof (cases "allEvents sc r = []")
      case True
      with False fin show ?thesis by (simp add: schedule_timeline)
    next
      case nonempty: False
      with fin False have "snd ?b = duration sc" by simp
      with ch ord ce False show ?thesis by (auto simp: schedule_timeline)
    qed
  qed
qed

lemma schedule_tiles:
  assumes "events_fit 0 (duration sc) (allEvents sc r)"
  shows "contiguous (timeline (fst (schedule sc st r)))"
    and "non_overlapping (timeline (fst (schedule sc st r)))"
    and "covers (timeline (fst (schedule sc st r))) (duration sc)"
    and "\<forall>s \<in> set (timeline (fst (schedule sc st r))). endTime s \<le> duration sc"
    and "0 < duration sc \<Longrightarrow> timeline (fst (schedule sc st r)) \<noteq> []"
proof -
  let ?T = "timeline (fst (schedule sc st r))"
  from schedule_chain [OF assms, of st]
  have ch: "chained 0 ?T" and ord: "\<forall>s \<in> set ?T. startTime s \<le> endTime s"
    and fin: "if ?T = [] then duration sc \<le> 0 else chain_end 0 ?T = duration sc"
    by auto
  show "contiguous ?T" using ch by (simp add: contiguous_def)
  show "non_overlapping ?T" by (rule chained_non_overlapping [OF ch ord])
  show "covers ?T (duration sc)"
  proof (cases "?T = []")
    case True
    with fin show ?thesis by (simp add: covers_def)
  next
    case False
    with fin chained_span [OF ch ord] show ?thesis by (simp add: covers_def)
  qed
  show "\<forall>s \<in> set ?T. endTime s \<le> duration sc"
  proof (cases "?T = []")
    case True
    then show ?thesis by simp
  next
    case False
    with fin chained_ends [OF ch ord] show ?thesis by simp
  qed
  show "0 < duration sc \<Longrightarrow> ?T \<noteq> []" using fin by (auto split: if_splits)
qed



lemma calculateBreakoutDuration_pos: "0 < calculateBreakoutDuration sp m"
  by (cases sp) simp_all

lemma events_fit_no_fakes:
  assumes "configuredFakes sc = []"
    and "0 \<le> fst (timeWindow (breakout sc))"
    and "fst (timeWindow (breakout sc)) \<le> snd (timeWindow (breakout sc))"
    and "snd (timeWindow (breakout sc)) \<le> duration sc"
    and "0 \<le> random r" and "random r < 1"
  shows "events_fit 0 (duration sc) (allEvents sc r)"
proof (cases "breakout_type (breakout sc) = none")
  case True
  with assms(1) show ?thesis by (simp add: allEvents_def)
next
  case False
  let ?a = "fst (timeWindow (breakout sc))"
  let ?b = "snd (timeWindow (breakout sc))"
  let ?s = "?a + random r * (?b - ?a)"
  have "0 \<le> random r * (?b - ?a)" using assms(3,5) by simp
  then have lo: "?a \<le> ?s" by simp
  have "random r * (?b - ?a) \<le> 1 * (?b - ?a)"
    using assms(3,6) by (intro mult_right_mono) simp_all
  then have hi: "?s \<le> ?b" by simp
  from calculateBreakoutDuration_pos [of "speed (breakout sc)" "\<bar>magnitude (breakout sc)\<bar>"]
  have "?s \<le> ?s + calculateBreakoutDuration (speed (breakout sc)) \<bar>magnitude (breakout sc)\<bar>"
    by simp
  with lo hi assms(2,4) False assms(1) show ?thesis
    by (simp add: allEvents_def mainBreakout_def Let_def)
qed

lemmas scenario_eval =
  schedule_def allEvents_def mainBreakout_def configuredFakes_def random_def advance_def
  constDraws_def Let_def eventSegment_def rangingSegment_def

section \<open>The notifier\<close>

lemma call_keeps_in_progress:
  "breakoutInProgress st \<Longrightarrow> \<not> isCompletion c \<Longrightarrow> \<not> isReset c \<Longrightarrow>
   breakoutInProgress (fst (call c st))"
  by (cases c)
     (simp_all add: on_def onAny_def off_def scheduleWarning_def notifyBreakoutStart_def
        notifyProgress_def clearListeners_def Let_def split: option.splits)

lemma calls_keep_in_progress:
  "breakoutInProgress st \<Longrightarrow> \<forall>c \<in> set cs. \<not> isCompletion c \<and> \<not> isReset c \<Longrightarrow>
   breakoutInProgress (fst (calls cs st))"
proof (induction cs arbitrary: st)
  case Nil
  then show ?case by simp
next
  case (Cons c cs)
  from Cons.prems have "breakoutInProgress (fst (call c st))"
    by (simp add: call_keeps_in_progress)
  with Cons.IH [of "fst (call c st)"] Cons.prems(2) show ?case by (simp add: Let_def)
qed

lemma calls_append:
  "fst (calls (xs @ ys) st) = fst (calls ys (fst (calls xs st)))"
  by (induction xs arbitrary: st) (simp_all add: Let_def)

lemma start_sets_in_progress:
  "breakoutInProgress (fst (notifyBreakoutStart ty cp tp mg ed now st))"
  by (simp add: notifyBreakoutStart_def Let_def)

lemma emit_type: "d \<in> set (emit ev st) \<Longrightarrow> snd d = ev"
  by (auto simp: emit_def split: option.splits)

lemma start_only_on_transition:
  assumes "d \<in> set (snd (call c st))" and "ne_type (snd d) = start"
  shows "\<not> breakoutInProgress st \<and> breakoutInProgress (fst (call c st))"
proof (cases c)
  case (ScheduleWarning bt ct wl ty mg now)
  with assms show ?thesis
    by (auto simp: scheduleWarning_def Let_def split: if_splits dest!: emit_type)
next
  case (NotifyBreakoutStart ty cp tp mg ed now)
  with assms show ?thesis
    by (auto simp: notifyBreakoutStart_def Let_def split: if_splits)
next
  case (NotifyProgress ty cp tp th now)
  with assms show ?thesis
    by (auto simp: notifyProgress_def Let_def split: if_splits dest!: emit_type)
next
  case (NotifyBreakoutCompletion ty cp tp mg now)
  with assms show ?thesis
    by (auto simp: notifyBreakoutCompletion_def Let_def split: if_splits dest!: emit_type)
qed (use assms in simp_all)

lemmas notifier_eval =
  on_def onAny_def off_def emit_def scheduleWarning_def notifyBreakoutStart_def
  notifyProgress_def notifyBreakoutCompletion_def resetNotifier_def clearListeners_def
  newBreakoutNotifier_def Let_def

section \<open>The quote generator\<close>






lemma exp_minus_one_lt: "exp (- 1 :: real) < 9 / 10"
proof -
  have "(2 :: real) \<le> exp 1" using exp_ge_add_one_self [of "1 :: real"] by simp
  then have "inverse (exp (1 :: real)) \<le> inverse 2" by (rule le_imp_inverse_le) simp
  then show ?thesis by (simp add: exp_minus)
qed

lemma advance_constDraws [simp]: "advance (constDraws u) = constDraws u"
  by (simp add: advance_def constDraws_def)

lemma random_constDraws [simp]: "random (constDraws u) = u"
  by (simp add: random_def constDraws_def)

lemma advance_sampleDraws [simp]: "advance sampleDraws = constDraws 0"
  by (simp add: advance_def sampleDraws_def constDraws_def)

lemma random_sampleDraws [simp]: "random sampleDraws = 9 / 10"
  by (simp add: random_def sampleDraws_def)

lemma poisson_sample_one: "poissonSample 1 sampleDraws = Some (1, constDraws 0)"
proof -
  have a: "exp (- 1 :: real) * 10 < 9" using exp_minus_one_lt by simp
  have "poissonLoop (exp (- 1)) 0 1 sampleDraws = poissonLoop (exp (- 1)) 1 (9 / 10) (constDraws 0)"
    by (subst poissonLoop.simps) (simp add: a)
  also have "\<dots> = Some (1, constDraws 0)"
    by (subst poissonLoop.simps) (simp add: not_less)
  finally show ?thesis by (simp add: poissonSample_def)
qed

lemma sampleGenerator_step:
  "stepSecond 0 (''N'', ''O'') F None sampleGenerator sampleDraws =
     Some ([\<lparr>time = 0, priceBid = 10001 / 100, priceAsk = 10004 / 100,
             sizeBid = 250, sizeAsk = 250\<rparr>],
           sampleGenerator\<lparr>bid := 10001 / 100, ask := 10004 / 100\<rparr>,
           constDraws 0)"
proof -
  have l: "lambda (model sampleGenerator) (''N'', ''O'') = 1"
    by (simp add: lambda_def sampleGenerator_def newQuoteGenerator_def sampleQuoteModel_def)
  have one: "(1 :: nat) = Suc 0" by simp
  show ?thesis
    unfolding stepSecond_def sampleNbUpdates_def l poisson_sample_one
    by (simp add: one sampleTick_def subUpdate_def sampleGenerator_def newQuoteGenerator_def
        sampleQuoteModel_def Let_def)
qed


section \<open>The price model\<close>

lemma handle_frame:
  "generator (fst (handleBreakoutNotifications clk pm)) = generator pm"
  "buffer (fst (handleBreakoutNotifications clk pm)) = buffer pm"
  "window (fst (handleBreakoutNotifications clk pm)) = window pm"
  "maxBufferSize (fst (handleBreakoutNotifications clk pm)) = maxBufferSize pm"
  by (simp_all add: handleBreakoutNotifications_def Let_def split: option.splits)

lemma stepEntry_frame:
  assumes "stepEntry ticks pm = Inr (e, pm')"
  shows "buffer pm' = buffer pm" "window pm' = window pm"
    "maxBufferSize pm' = maxBufferSize pm" "generator pm' = generator pm"
  using assms by (auto simp: stepEntry_def Let_def split: if_splits)

lemma stepEntry_returns:
  "buffer pm \<noteq> [] \<Longrightarrow> \<exists>e pm'. stepEntry ticks pm = Inr (e, pm')"
  by (simp add: stepEntry_def Let_def)

lemma pushEntry_full:
  assumes "buffer_full pm"
  shows "buffer (pushEntry e pm) = tl (buffer pm) @ [e]"
    and "window (pushEntry e pm) = window pm"
    and "maxBufferSize (pushEntry e pm) = maxBufferSize pm"
    and "generator (pushEntry e pm) = generator pm"
    and "buffer_full (pushEntry e pm)"
proof -
  from assms have ne: "buffer pm \<noteq> []" by (auto simp: buffer_full_def)
  from assms ne show "buffer (pushEntry e pm) = tl (buffer pm) @ [e]"
    by (simp add: pushEntry_def buffer_full_def Let_def)
  show "window (pushEntry e pm) = window pm" by (simp add: pushEntry_def Let_def)
  show "maxBufferSize (pushEntry e pm) = maxBufferSize pm" by (simp add: pushEntry_def Let_def)
  show "generator (pushEntry e pm) = generator pm" by (simp add: pushEntry_def Let_def)
  from assms ne show "buffer_full (pushEntry e pm)"
    by (simp add: pushEntry_def buffer_full_def Let_def)
qed

lemma detectPivot_full:
  assumes "buffer_full pm"
  shows "\<exists>pm'. detectPivot pm = Inr pm' \<and> buffer pm' = buffer pm \<and> window pm' = window pm
           \<and> maxBufferSize pm' = maxBufferSize pm \<and> generator pm' = generator pm
           \<and> pivot pm' = pivotOf pm
           \<and> pivotBid pm' = be_bid (buffer pm ! window pm)
           \<and> pivotAsk pm' = be_ask (buffer pm ! window pm)"
  using assms by (simp add: detectPivot_def buffer_full_def Let_def pivotOf_def)

lemma update_diverges:
  "updateTicks nowDt now pm r = None \<Longrightarrow> update nowDt now clk pm r = None"
  by (simp add: updateTicks_def update_def Let_def handle_frame)

lemma update_step:
  assumes full: "buffer_full pm"
    and ut: "updateTicks nowDt now pm r = Some (ticks, g', r')"
  shows "\<exists>pm' ds e.
           update nowDt now clk pm r = Some (Inr (pm', ds, r'))
           \<and> generator pm' = g'
           \<and> buffer pm' = tl (buffer pm) @ [e]
           \<and> (ticks \<noteq> [] \<longrightarrow>
                be_mid e = getVolumeWeightedMid g' (sizeBid (last ticks)) (sizeAsk (last ticks)))
           \<and> (ticks = [] \<longrightarrow> e = last (buffer pm))
           \<and> window pm' = window pm \<and> maxBufferSize pm' = maxBufferSize pm
           \<and> buffer_full pm'
           \<and> pivot pm' = pivotOf pm'
           \<and> pivotBid pm' = be_bid (buffer pm' ! window pm')
           \<and> pivotAsk pm' = be_ask (buffer pm' ! window pm')"
proof -
  let ?pm1 = "pm\<lparr>elapsedTime := now - pm_startTime pm\<rparr>"
  let ?h = "handleBreakoutNotifications clk ?pm1"
  let ?cur = "getCurrentRegime (scheduler pm) (now - pm_startTime pm)"
  have gh: "generator (fst ?h) = generator pm" by (simp add: handle_frame)
  from ut gh have
    st: "stepSecond nowDt (cr_regime ?cur) (cr_sign ?cur) (cr_targetPrice ?cur)
           (generator (fst ?h)) r = Some (ticks, g', r')"
    by (simp add: updateTicks_def Let_def)
  let ?pmg = "(fst ?h)\<lparr>generator := g'\<rparr>"
  have bh: "buffer ?pmg = buffer pm" "window ?pmg = window pm"
    "maxBufferSize ?pmg = maxBufferSize pm" "generator ?pmg = g'"
    by (simp_all add: handle_frame)
  from full bh have ne: "buffer ?pmg \<noteq> []" by (auto simp: buffer_full_def)
  from stepEntry_returns [OF ne] obtain e pm2 where se: "stepEntry ticks ?pmg = Inr (e, pm2)"
    by blast
  from stepEntry_frame [OF se] bh have f2: "buffer pm2 = buffer pm" "window pm2 = window pm"
    "maxBufferSize pm2 = maxBufferSize pm" "generator pm2 = g'" by simp_all
  from full f2 have full2: "buffer_full pm2" by (simp add: buffer_full_def)
  note pe = pushEntry_full [OF full2, of e]
  from detectPivot_full [OF pe(5)] obtain pm3 where
    dp: "detectPivot (pushEntry e pm2) = Inr pm3"
    and f3: "buffer pm3 = buffer (pushEntry e pm2)" "window pm3 = window (pushEntry e pm2)"
      "maxBufferSize pm3 = maxBufferSize (pushEntry e pm2)"
      "generator pm3 = generator (pushEntry e pm2)"
    and pv: "pivot pm3 = pivotOf (pushEntry e pm2)"
      "pivotBid pm3 = be_bid (buffer (pushEntry e pm2) ! window (pushEntry e pm2))"
      "pivotAsk pm3 = be_ask (buffer (pushEntry e pm2) ! window (pushEntry e pm2))"
    by blast
  from st se dp have res: "update nowDt now clk pm r = Some (Inr (pm3, snd ?h, r'))"
    by (simp add: update_def Let_def)
  have e1: "ticks \<noteq> [] \<longrightarrow>
      be_mid e = getVolumeWeightedMid g' (sizeBid (last ticks)) (sizeAsk (last ticks))"
    using se bh by (auto simp: stepEntry_def Let_def split: if_splits)
  have e2: "ticks = [] \<longrightarrow> e = last (buffer pm)"
    using se bh by (auto simp: stepEntry_def Let_def split: if_splits)
  have full3: "buffer_full pm3" using pe(5) f3 pe by (simp add: buffer_full_def)
  have pv3: "pivot pm3 = pivotOf pm3" using pv(1) f3 by (simp add: pivotOf_def)
  from res f3 pe f2 e1 e2 full3 pv3 pv show ?thesis by simp
qed

lemma update_full:
  assumes full: "buffer_full pm"
    and upd: "update nowDt now clk pm r = Some res"
  shows "\<exists>pm' ds r' ticks g' e.
           res = Inr (pm', ds, r')
           \<and> updateTicks nowDt now pm r = Some (ticks, g', r')
           \<and> generator pm' = g'
           \<and> buffer pm' = tl (buffer pm) @ [e]
           \<and> (ticks \<noteq> [] \<longrightarrow>
                be_mid e = getVolumeWeightedMid g' (sizeBid (last ticks)) (sizeAsk (last ticks)))
           \<and> (ticks = [] \<longrightarrow> e = last (buffer pm))
           \<and> window pm' = window pm \<and> maxBufferSize pm' = maxBufferSize pm
           \<and> buffer_full pm'
           \<and> pivot pm' = pivotOf pm'
           \<and> pivotBid pm' = be_bid (buffer pm' ! window pm')
           \<and> pivotAsk pm' = be_ask (buffer pm' ! window pm')"
proof (cases "updateTicks nowDt now pm r")
  case None
  from update_diverges [OF None, of clk] upd show ?thesis by simp
next
  case (Some x)
  obtain ticks g' r' where x: "x = (ticks, g', r')" by (cases x) auto
  from update_step [OF full Some [unfolded x], of clk] upd Some x
  show ?thesis by auto
qed

lemma newPriceModel_full:
  "buffer_full (fst (newPriceModel qm scOpt w now r))"
  by (simp add: newPriceModel_def buffer_full_def Let_def)

lemma resetWithScenario_full:
  "buffer_full pm \<Longrightarrow> buffer_full (fst (resetWithScenario sc now pm r))"
  "window (fst (resetWithScenario sc now pm r)) = window pm"
  by (simp_all add: resetWithScenario_def buffer_full_def Let_def)

lemma pmCalls_full:
  "buffer_full pm \<Longrightarrow> pmCalls cs pm r = Some res \<Longrightarrow>
   \<exists>pm' r'. res = Inr (pm', r') \<and> buffer_full pm' \<and> window pm' = window pm"
proof (induction cs arbitrary: pm r)
  case Nil
  then show ?case by auto
next
  case (Cons c cs)
  show ?case
  proof (cases c)
    case (Update nowDt now clk)
    from Cons.prems(2) Update obtain res1 where u: "update nowDt now clk pm r = Some res1"
      by (auto split: option.splits)
    from update_full [OF Cons.prems(1) u] obtain pm1 ds r1 where
      r1: "res1 = Inr (pm1, ds, r1)" and f1: "buffer_full pm1" and w1: "window pm1 = window pm"
      by blast
    from Cons.prems(2) Update u r1 have "pmCalls cs pm1 r1 = Some res" by simp
    from Cons.IH [OF f1 this] w1 show ?thesis by simp
  next
    case (ResetWithScenario sc now)
    let ?x = "resetWithScenario sc now pm r"
    from Cons.prems(2) ResetWithScenario have "pmCalls cs (fst ?x) (snd ?x) = Some res" by simp
    from Cons.IH [OF resetWithScenario_full(1) [OF Cons.prems(1)] this]
      resetWithScenario_full(2) [of sc now pm r]
    show ?thesis by simp
  qed
qed









lemma tickModel_generator: "generator tickModel = sampleGenerator"
  by (simp add: tickModel_def newPriceModel_def sampleGenerator_def createRangingScenario_def
      Let_def)

lemma tickModel_ticks:
  "updateTicks 0 1 tickModel sampleDraws =
     Some ([\<lparr>time = 0, priceBid = 10001 / 100, priceAsk = 10004 / 100,
             sizeBid = 250, sizeAsk = 250\<rparr>],
           sampleGenerator\<lparr>bid := 10001 / 100, ask := 10004 / 100\<rparr>,
           constDraws 0)"
proof -
  have "getCurrentRegime (scheduler tickModel) (1 - pm_startTime tickModel)
          = \<lparr>cr_regime = (''N'', ''O''), cr_sign = F, cr_targetPrice = None\<rparr>"
    by (simp add: tickModel_def newPriceModel_def createRangingScenario_def scenario_eval
        newRegimeScheduler_def getCurrentRegime_def segmentRegime_def)
  then show ?thesis
    by (simp add: updateTicks_def tickModel_generator sampleGenerator_step)
qed


lemma tickModel_full: "buffer_full tickModel"
  unfolding tickModel_def by (rule newPriceModel_full)


text \<open>
  C1 (amended). For every scenario whose scheduled events fit (in sorted order the
  first starts at 0 or later, each ends no earlier than it starts and no later than the
  duration, and each starts no earlier than the one before it ends), fake breakouts
  included, the timeline built by \<open>schedule\<close> is contiguous (the first segment starts
  at 0 and each segment starts where the previous one ends), its segments are pairwise
  non-overlapping, and their union is exactly \<open>[0, duration)\<close>. The events fit in every
  scenario without fake breakouts whose breakout window \<open>[a, b]\<close> has
  \<open>0 \<le> a \<le> b \<le> duration\<close>, for every draw in \<open>[0, 1)\<close>.
\<close>

theorem schedule_timeline_tiles:
  "(events_fit 0 (duration sc) (allEvents sc r) \<longrightarrow>
      contiguous (timeline (fst (schedule sc st r))) \<and>
      non_overlapping (timeline (fst (schedule sc st r))) \<and>
      covers (timeline (fst (schedule sc st r))) (duration sc))
   \<and> (configuredFakes sc = [] \<and> 0 \<le> fst (timeWindow (breakout sc))
        \<and> fst (timeWindow (breakout sc)) \<le> snd (timeWindow (breakout sc))
        \<and> snd (timeWindow (breakout sc)) \<le> duration sc
        \<and> 0 \<le> random r \<and> random r < 1 \<longrightarrow>
      events_fit 0 (duration sc) (allEvents sc r))"
  using schedule_tiles(1-3) [of sc r st] events_fit_no_fakes [of sc r] by blast

theorem schedule_timeline_tiles_witness:
  "events_fit 0 (duration createFakeBreakoutScenario)
     (allEvents createFakeBreakoutScenario (constDraws 0))
   \<and> contiguous
       (timeline (fst (schedule createFakeBreakoutScenario newRegimeScheduler (constDraws 0))))
   \<and> non_overlapping
       (timeline (fst (schedule createFakeBreakoutScenario newRegimeScheduler (constDraws 0))))
   \<and> covers
       (timeline (fst (schedule createFakeBreakoutScenario newRegimeScheduler (constDraws 0))))
       (duration createFakeBreakoutScenario)
   \<and> configuredFakes createBullishBreakout = []
   \<and> 0 \<le> fst (timeWindow (breakout createBullishBreakout))
   \<and> fst (timeWindow (breakout createBullishBreakout))
       \<le> snd (timeWindow (breakout createBullishBreakout))
   \<and> snd (timeWindow (breakout createBullishBreakout)) \<le> duration createBullishBreakout
   \<and> 0 \<le> random (constDraws (1 / 2)) \<and> random (constDraws (1 / 2)) < 1
   \<and> events_fit 0 (duration createBullishBreakout)
         (allEvents createBullishBreakout (constDraws (1 / 2)))"
proof -
  have h: "events_fit 0 (duration createFakeBreakoutScenario)
             (allEvents createFakeBreakoutScenario (constDraws 0))"
    by (simp add: scenario_eval createFakeBreakoutScenario_def)
  have k: "configuredFakes createBullishBreakout = []
           \<and> 0 \<le> fst (timeWindow (breakout createBullishBreakout))
           \<and> fst (timeWindow (breakout createBullishBreakout))
               \<le> snd (timeWindow (breakout createBullishBreakout))
           \<and> snd (timeWindow (breakout createBullishBreakout)) \<le> duration createBullishBreakout
           \<and> 0 \<le> random (constDraws (1 / 2)) \<and> random (constDraws (1 / 2)) < 1"
    by (simp add: createBullishBreakout_def configuredFakes_def random_def constDraws_def)
  from schedule_timeline_tiles
         [of createFakeBreakoutScenario "constDraws 0" newRegimeScheduler]
       schedule_timeline_tiles
         [of createBullishBreakout "constDraws (1 / 2)" newRegimeScheduler]
       h k
  show ?thesis by blast
qed

text \<open>
  C1 as stated fails: in \<open>overlappingScenario\<close> with every draw 0 the timeline is
  \<open>[0, 15)\<close>, \<open>[15, 27.5)\<close>, \<open>[27.5, 32.5)\<close>, \<open>[30, 45)\<close>, \<open>[45, 90)\<close>; the fourth segment
  starts at 30, before the third ends, and time 31 lies in both.
\<close>

theorem schedule_overlap_counterexample:
  "\<not> contiguous
       (timeline (fst (schedule overlappingScenario newRegimeScheduler (constDraws 0))))
   \<and> \<not> non_overlapping
         (timeline (fst (schedule overlappingScenario newRegimeScheduler (constDraws 0))))"
proof
  show "\<not> contiguous
       (timeline (fst (schedule overlappingScenario newRegimeScheduler (constDraws 0))))"
    by (simp add: scenario_eval overlappingScenario_def createFakeBreakoutScenario_def
        contiguous_def)
next
  let ?T = "timeline (fst (schedule overlappingScenario newRegimeScheduler (constDraws 0)))"
  show "\<not> non_overlapping ?T"
  proof
    assume n: "non_overlapping ?T"
    have l: "length ?T = 5"
      by (simp add: scenario_eval overlappingScenario_def createFakeBreakoutScenario_def)
    have a: "31 \<in> seg_span (?T ! 2)"
      by (simp add: scenario_eval overlappingScenario_def createFakeBreakoutScenario_def
          seg_span_def)
    have b: "31 \<in> seg_span (?T ! 3)"
      by (simp add: scenario_eval overlappingScenario_def createFakeBreakoutScenario_def
          seg_span_def eval_nat_numeral)
    from n [unfolded non_overlapping_def, rule_format, of 2 3] l
    have "seg_span (?T ! 2) \<inter> seg_span (?T ! 3) = {}" by simp
    with a b show False by blast
  qed
qed

lemma overlappingScenario_timeline:
  "map (\<lambda>s. (startTime s, endTime s, sign s))
     (timeline (fst (schedule overlappingScenario newRegimeScheduler (constDraws 0))))
   = [(0, 15, F), (15, 55 / 2, U), (55 / 2, 65 / 2, D), (30, 45, U), (45, 90, F)]"
  by (simp add: scenario_eval overlappingScenario_def createFakeBreakoutScenario_def)







text \<open>
  C7 (amended). In every sequence of calls on a BreakoutNotifier, a
  \<open>notifyBreakoutStart\<close> call made after an earlier one, with no
  \<open>notifyBreakoutCompletion\<close> and no \<open>reset\<close> between the two, delivers no event and
  leaves the notifier's state unchanged; a \<open>start\<close> event is delivered only by a call
  that takes the notifier from idle to in progress, so there is at most one per such
  transition; and a \<open>notifyBreakoutCompletion\<close> call made while idle delivers nothing,
  changes nothing and is not an error.
\<close>

theorem duplicate_start_suppressed:
  assumes "\<forall>c \<in> set between. \<not> isCompletion c \<and> \<not> isReset c"
  shows "call (NotifyBreakoutStart ty2 cp2 tp2 mg2 ed2 now2)
           (fst (calls (before @ [NotifyBreakoutStart ty1 cp1 tp1 mg1 ed1 now1] @ between) st0))
         = (fst (calls (before @ [NotifyBreakoutStart ty1 cp1 tp1 mg1 ed1 now1] @ between) st0),
            [])
       \<and> (\<forall>d \<in> set (snd (call c1 st1)).
            ne_type (snd d) = start \<longrightarrow>
            \<not> breakoutInProgress st1 \<and> breakoutInProgress (fst (call c1 st1)))
       \<and> (\<not> breakoutInProgress st \<longrightarrow>
            call (NotifyBreakoutCompletion ty cp tp mg now) st = (st, []))"
proof -
  let ?s1 = "fst (calls before st0)"
  let ?s2 = "fst (call (NotifyBreakoutStart ty1 cp1 tp1 mg1 ed1 now1) ?s1)"
  have "breakoutInProgress ?s2" by (simp add: start_sets_in_progress)
  then have "breakoutInProgress (fst (calls between ?s2))"
    using assms by (rule calls_keep_in_progress)
  moreover have "fst (calls (before @ [NotifyBreakoutStart ty1 cp1 tp1 mg1 ed1 now1] @ between) st0)
      = fst (calls between ?s2)"
    by (simp add: calls_append Let_def)
  ultimately show ?thesis
    using start_only_on_transition [of _ c1 st1]
    by (simp add: notifyBreakoutStart_def notifyBreakoutCompletion_def)
qed

theorem duplicate_start_suppressed_witness:
  "\<not> isCompletion (NotifyProgress bullish 100 101 1 12)
   \<and> \<not> isReset (NotifyProgress bullish 100 101 1 12)
   \<and> snd (calls ([On start 7] @ [NotifyBreakoutStart bullish 100 101 1 15 10]
                 @ [NotifyProgress bullish 100 101 1 12]) newBreakoutNotifier) \<noteq> []
   \<and> call (NotifyBreakoutStart bullish 100 101 1 15 13)
       (fst (calls ([On start 7] @ [NotifyBreakoutStart bullish 100 101 1 15 10]
                    @ [NotifyProgress bullish 100 101 1 12]) newBreakoutNotifier))
     = (fst (calls ([On start 7] @ [NotifyBreakoutStart bullish 100 101 1 15 10]
                    @ [NotifyProgress bullish 100 101 1 12]) newBreakoutNotifier), [])
   \<and> snd (call (NotifyBreakoutStart bullish 100 101 1 15 10) (on start 7 newBreakoutNotifier))
     = [(7, \<lparr>ne_type = start, ne_breakoutType = bullish, ne_timeToBreakout = None,
             ne_currentPrice = Some 100, ne_targetPrice = Some 101, ne_magnitude = Some 1,
             ne_expectedDuration = Some 15, ne_progress = None, ne_timestamp = 10\<rparr>)]
   \<and> \<not> breakoutInProgress (on start 7 newBreakoutNotifier)
   \<and> breakoutInProgress
       (fst (call (NotifyBreakoutStart bullish 100 101 1 15 10) (on start 7 newBreakoutNotifier)))
   \<and> \<not> breakoutInProgress newBreakoutNotifier
   \<and> call (NotifyBreakoutCompletion bullish 100 101 1 10) newBreakoutNotifier
     = (newBreakoutNotifier, [])"
proof -
  have h: "\<forall>c \<in> set [NotifyProgress bullish 100 101 1 12]. \<not> isCompletion c \<and> \<not> isReset c"
    by simp
  have i: "\<not> breakoutInProgress newBreakoutNotifier" by (simp add: newBreakoutNotifier_def)
  have d: "snd (calls ([On start 7] @ [NotifyBreakoutStart bullish 100 101 1 15 10]
                 @ [NotifyProgress bullish 100 101 1 12]) newBreakoutNotifier) \<noteq> []"
    by (simp add: notifier_eval)
  have e: "snd (call (NotifyBreakoutStart bullish 100 101 1 15 10)
                 (on start 7 newBreakoutNotifier))
     = [(7, \<lparr>ne_type = start, ne_breakoutType = bullish, ne_timeToBreakout = None,
             ne_currentPrice = Some 100, ne_targetPrice = Some 101, ne_magnitude = Some 1,
             ne_expectedDuration = Some 15, ne_progress = None, ne_timestamp = 10\<rparr>)]"
    by (simp add: notifier_eval)
  from duplicate_start_suppressed [OF h, of bullish 100 101 1 15 13 "[On start 7]"
      bullish 100 101 1 15 10 newBreakoutNotifier
      "NotifyBreakoutStart bullish 100 101 1 15 10" "on start 7 newBreakoutNotifier"
      newBreakoutNotifier bullish 100 101 1 10]
    h i d e
  show ?thesis by simp
qed

text \<open>
  C7 as stated fails: \<open>reset\<close> also returns the notifier to idle. With a listener 7
  registered for \<open>start\<close>, the calls \<open>notifyBreakoutStart\<close>, \<open>reset\<close>,
  \<open>notifyBreakoutStart\<close> contain no \<open>notifyBreakoutCompletion\<close>, and the second
  \<open>notifyBreakoutStart\<close> delivers a \<open>start\<close> event.
\<close>

theorem start_after_reset_counterexample:
  "\<not> isCompletion Reset
   \<and> snd (call (NotifyBreakoutStart bullish 100 101 1 15 13)
       (fst (calls [On start 7, NotifyBreakoutStart bullish 100 101 1 15 10, Reset]
              newBreakoutNotifier)))
     = [(7, \<lparr>ne_type = start, ne_breakoutType = bullish, ne_timeToBreakout = None,
             ne_currentPrice = Some 100, ne_targetPrice = Some 101, ne_magnitude = Some 1,
             ne_expectedDuration = Some 15, ne_progress = None, ne_timestamp = 13\<rparr>)]"
  by (simp add: notifier_eval)





text \<open>
  C6. For every regime and sign whose key is absent from the transition table, or whose
  bucket set is empty, \<open>sampleTick\<close> returns exactly the neutral fallback tick (price
  delta 0, spread 0.01, size 100), a result and not an error, and takes no draw.
\<close>

theorem sampleTick_fallback:
  assumes "transition m (fst rg @ '','' @ snd rg @ '','' @ signTag sg) = None
           \<or> transition m (fst rg @ '','' @ snd rg @ '','' @ signTag sg) = Some []"
  shows "sampleTick m rg sg r = (\<lparr>st_dp = 0, st_spread = 1 / 100, st_size = 100\<rparr>, r)"
  using assms by (auto simp: sampleTick_def fallbackTick_def Let_def)

theorem sampleTick_fallback_witness:
  "(transition sampleQuoteModel (fst (''N'', ''B'') @ '','' @ snd (''N'', ''B'') @ '','' @ signTag U)
      = None
    \<or> transition sampleQuoteModel
        (fst (''N'', ''B'') @ '','' @ snd (''N'', ''B'') @ '','' @ signTag U) = Some [])
   \<and> sampleTick sampleQuoteModel (''N'', ''B'') U sampleDraws
       = (\<lparr>st_dp = 0, st_spread = 1 / 100, st_size = 100\<rparr>, sampleDraws)"
proof -
  have h: "transition sampleQuoteModel
             (fst (''N'', ''B'') @ '','' @ snd (''N'', ''B'') @ '','' @ signTag U) = None
           \<or> transition sampleQuoteModel
               (fst (''N'', ''B'') @ '','' @ snd (''N'', ''B'') @ '','' @ signTag U) = Some []"
    by (simp add: sampleQuoteModel_def)
  from sampleTick_fallback [OF h, of sampleDraws] h show ?thesis by blast
qed




text \<open>
  C9. The buffer of a PriceModel holds exactly \<open>2 \<times> window + 1\<close> entries at all times:
  the constructor fills it with that many identical entries (base bid, base ask, their
  mid), and after every sequence of \<open>update\<close> and \<open>resetWithScenario\<close> calls it has that
  length again. Every \<open>update\<close> of a model with a full buffer that returns does not
  throw, appends one entry and drops the oldest, and runs the pivot detection: the
  pivot, \<open>pivotBid\<close> and \<open>pivotAsk\<close> are those of the centre of the new buffer, on the
  first update as on every other.
\<close>

theorem buffer_always_full:
  "buffer (fst (newPriceModel qm scOpt w t0 r0)) =
     replicate (2 * w + 1)
       \<lparr>be_bid = startPrice (case scOpt of None \<Rightarrow> createRangingScenario | Some s \<Rightarrow> s),
        be_ask = startPrice (case scOpt of None \<Rightarrow> createRangingScenario | Some s \<Rightarrow> s)
                 + base (spread (case scOpt of None \<Rightarrow> createRangingScenario | Some s \<Rightarrow> s)),
        be_mid = (startPrice (case scOpt of None \<Rightarrow> createRangingScenario | Some s \<Rightarrow> s)
                  + (startPrice (case scOpt of None \<Rightarrow> createRangingScenario | Some s \<Rightarrow> s)
                     + base (spread (case scOpt of None \<Rightarrow> createRangingScenario
                                     | Some s \<Rightarrow> s)))) / 2\<rparr>
   \<and> (pmCalls cs (fst (newPriceModel qm scOpt w t0 r0)) r = Some res \<longrightarrow>
        (\<exists>pm' r'. res = Inr (pm', r') \<and> window pm' = w
                  \<and> length (buffer pm') = 2 * w + 1
                  \<and> length (buffer pm') = maxBufferSize pm'))
   \<and> (buffer_full pm \<and> update nowDt now clk pm r1 = Some res1 \<longrightarrow>
        (\<exists>pm' ds r' e. res1 = Inr (pm', ds, r')
                  \<and> buffer pm' = tl (buffer pm) @ [e]
                  \<and> length (buffer pm') = maxBufferSize pm'
                  \<and> length (buffer pm') = 2 * window pm' + 1
                  \<and> pivot pm' = pivotOf pm'
                  \<and> pivotBid pm' = be_bid (buffer pm' ! window pm')
                  \<and> pivotAsk pm' = be_ask (buffer pm' ! window pm')))"
proof (intro conjI impI)
  show "buffer (fst (newPriceModel qm scOpt w t0 r0)) =
     replicate (2 * w + 1)
       \<lparr>be_bid = startPrice (case scOpt of None \<Rightarrow> createRangingScenario | Some s \<Rightarrow> s),
        be_ask = startPrice (case scOpt of None \<Rightarrow> createRangingScenario | Some s \<Rightarrow> s)
                 + base (spread (case scOpt of None \<Rightarrow> createRangingScenario | Some s \<Rightarrow> s)),
        be_mid = (startPrice (case scOpt of None \<Rightarrow> createRangingScenario | Some s \<Rightarrow> s)
                  + (startPrice (case scOpt of None \<Rightarrow> createRangingScenario | Some s \<Rightarrow> s)
                     + base (spread (case scOpt of None \<Rightarrow> createRangingScenario
                                     | Some s \<Rightarrow> s)))) / 2\<rparr>"
    by (simp add: newPriceModel_def Let_def)
next
  assume "pmCalls cs (fst (newPriceModel qm scOpt w t0 r0)) r = Some res"
  from pmCalls_full [OF newPriceModel_full this]
  show "\<exists>pm' r'. res = Inr (pm', r') \<and> window pm' = w
                  \<and> length (buffer pm') = 2 * w + 1
                  \<and> length (buffer pm') = maxBufferSize pm'"
    by (auto simp: buffer_full_def newPriceModel_def Let_def)
next
  assume "buffer_full pm \<and> update nowDt now clk pm r1 = Some res1"
  then have f: "buffer_full pm" and u: "update nowDt now clk pm r1 = Some res1" by simp_all
  from update_full [OF f u]
  show "\<exists>pm' ds r' e. res1 = Inr (pm', ds, r')
                  \<and> buffer pm' = tl (buffer pm) @ [e]
                  \<and> length (buffer pm') = maxBufferSize pm'
                  \<and> length (buffer pm') = 2 * window pm' + 1
                  \<and> pivot pm' = pivotOf pm'
                  \<and> pivotBid pm' = be_bid (buffer pm' ! window pm')
                  \<and> pivotAsk pm' = be_ask (buffer pm' ! window pm')"
    unfolding buffer_full_def by metis
qed

theorem buffer_always_full_witness:
  "pmCalls [Update 0 1 1] (fst (newPriceModel sampleQuoteModel (Some createRangingScenario) 5 0
       (constDraws 0))) sampleDraws
     = Some (the (pmCalls [Update 0 1 1]
         (fst (newPriceModel sampleQuoteModel (Some createRangingScenario) 5 0 (constDraws 0)))
         sampleDraws))
   \<and> buffer_full tickModel
   \<and> update 0 1 1 tickModel sampleDraws = Some (the (update 0 1 1 tickModel sampleDraws))
   \<and> map_option (map_sum id (length \<circ> buffer \<circ> fst)) (update 0 1 1 tickModel sampleDraws)
       = Some (Inr 11)
   \<and> map_option (map_sum id (pivotBid \<circ> fst)) (update 0 1 1 tickModel sampleDraws)
       = Some (Inr 100)"
proof -
  let ?pm0 = "fst (newPriceModel sampleQuoteModel (Some createRangingScenario) 5 0 (constDraws 0))"
  from update_step [OF tickModel_full tickModel_ticks, of 1]
  obtain pm' ds where u: "update 0 1 1 tickModel sampleDraws = Some (Inr (pm', ds, constDraws 0))"
    by auto
  then have h2: "update 0 1 1 tickModel sampleDraws = Some (the (update 0 1 1 tickModel sampleDraws))"
    by simp
  from u have "pmCalls [Update 0 1 1] ?pm0 sampleDraws = Some (Inr (pm', constDraws 0))"
    by (simp add: tickModel_def)
  then have h1: "pmCalls [Update 0 1 1] ?pm0 sampleDraws
      = Some (the (pmCalls [Update 0 1 1] ?pm0 sampleDraws))" by simp
  from buffer_always_full [of sampleQuoteModel "Some createRangingScenario" 5 0 "constDraws 0"
      "[Update 0 1 1]" sampleDraws "the (pmCalls [Update 0 1 1] ?pm0 sampleDraws)"
      tickModel 0 1 1 sampleDraws "the (update 0 1 1 tickModel sampleDraws)"]
    h1 h2 tickModel_full u
  obtain e where b: "buffer pm' = tl (buffer tickModel) @ [e]"
    and l: "length (buffer pm') = 2 * window pm' + 1"
    and p: "pivotBid pm' = be_bid (buffer pm' ! window pm')"
    by auto
  have w: "window pm' = 5"
    using update_step [OF tickModel_full tickModel_ticks, of 1] u
    by (auto simp: tickModel_def newPriceModel_def Let_def)
  have tb: "buffer tickModel
      = replicate 11 \<lparr>be_bid = 100, be_ask = 10002 / 100, be_mid = 10001 / 100\<rparr>"
    by (simp add: tickModel_def newPriceModel_def createRangingScenario_def Let_def)
  from b tb w have "be_bid (buffer pm' ! window pm') = 100"
    by (simp add: eval_nat_numeral)
  with h1 h2 tickModel_full u l p w show ?thesis by simp
qed



end
